theory Spec2Isabelle
  imports Main "HOL-Library.AList"
begin

section \<open>Data model (types/led-panel.ts)\<close>

text \<open>
  The interfaces of \<^verbatim>\<open>types/led-panel.ts\<close> as records. An optional field
  (\<^verbatim>\<open>device_address?: string\<close>) is an \<open>option\<close>; JavaScript numbers that the
  user interface only ever fills with integers are \<open>int\<close>.
\<close>

record device =
  name :: string
  address :: string
  rssi :: "int option"

record device_status =
  connected :: bool
  device_address :: "string option"

record device_info =
  width :: int
  height :: int
  device_type :: int
  led_type :: int
  has_wifi :: bool

record text_request =
  text_body :: string
  color :: "string option"
  font :: "string option"
  animation :: "int option"
  speed :: "int option"
  rainbow_mode :: "int option"
  char_height :: "int option"

text \<open>
  The coordinates of a \<^verbatim>\<open>PixelData\<close> are what \<^verbatim>\<open>Number\<close> made of the two parts
  of a grid key; \<open>None\<close> stands for \<^verbatim>\<open>NaN\<close> and \<^verbatim>\<open>undefined\<close>.
\<close>

record pixel_data =
  px :: "int option"
  py :: "int option"
  pcolor :: string

record clock_settings =
  style :: int
  format_24 :: bool
  show_date :: bool

record websocket_message =
  mtype :: string
  mconnected :: bool
  mdevice_address :: "string option"

datatype panel_mode = clock | rhythm | diy

type_synonym js_file = string

text \<open>
  JavaScript truthiness of an optional string, as tested by
  \<^verbatim>\<open>if (msg.device_address)\<close>: \<^verbatim>\<open>undefined\<close> and the empty string are falsy.
\<close>

definition truthy_str :: "string option \<Rightarrow> bool" where
  "truthy_str a = (case a of None \<Rightarrow> False | Some s \<Rightarrow> s \<noteq> [])"

section \<open>Number formatting in template strings\<close>

text \<open>
  \<^verbatim>\<open>`${x},${y}`\<close> renders an integral number in decimal, with a leading minus sign
  when it is negative.
\<close>

definition digit :: "nat \<Rightarrow> char" where
  "digit d = char_of (48 + d)"

fun show_nat :: "nat \<Rightarrow> string" where
  "show_nat n = (if n < 10 then [digit n] else show_nat (n div 10) @ [digit (n mod 10)])"

declare show_nat.simps [simp del]

definition show_int :: "int \<Rightarrow> string" where
  "show_int i = (if i < 0 then CHR ''-'' # show_nat (nat (- i)) else show_nat (nat i))"

section \<open>Pixel grid (App.tsx, handlePixelClick)\<close>

text \<open>
  \<^verbatim>\<open>pixelGrid\<close> is a \<^verbatim>\<open>Record<string, string>\<close>: an object whose own properties are
  kept in insertion order. It is an association list with distinct keys: assigning to
  an existing key keeps its place, assigning to a new key appends, \<^verbatim>\<open>delete\<close>
  removes the entry. \<open>AList.update\<close> and \<open>AList.delete\<close> do exactly this.
\<close>

type_synonym pixel_grid = "(string \<times> string) list"

definition pixel_key :: "int \<Rightarrow> int \<Rightarrow> string" where
  "pixel_key x y = show_int x @ CHR '','' # show_int y"

text \<open>
  \<^verbatim>\<open>
  const handlePixelClick = (x: number, y: number) => {
    const key = `${x},${y}`;
    setPixelGrid(prev => {
      const newGrid = { ...prev };
      if (newGrid[key] === pixelColor) { delete newGrid[key]; }
      else { newGrid[key] = pixelColor; }
      return newGrid;
    });
  };
  \<close>
  The function below is the updater applied to \<^verbatim>\<open>prev\<close>, with the selected colour as
  a parameter.
\<close>

definition handlePixelClick :: "string \<Rightarrow> int \<Rightarrow> int \<Rightarrow> pixel_grid \<Rightarrow> pixel_grid" where
  "handlePixelClick pixelColor x y prev =
     (let key = pixel_key x y in
      if map_of prev key = Some pixelColor then AList.delete key prev
      else AList.update key pixelColor prev)"


section \<open>Transport client (services/api.ts)\<close>

text \<open>
  Every method of \<^verbatim>\<open>LEDPanelAPI\<close> issues one \<^verbatim>\<open>fetch\<close>. The request that goes
  on the wire is a value of \<open>request\<close>, so that a handler's network calls can be
  counted; what comes back is a \<open>response\<close>: the promise rejects, or the server
  answers with \<^verbatim>\<open>ok = false\<close> (status text and the \<^verbatim>\<open>detail\<close> of the error
  body), or with \<^verbatim>\<open>ok = true\<close> and a body. The acknowledgement body
  \<^verbatim>\<open>ApiResponse\<close> is ignored by every caller and is \<open>unit\<close> here.
\<close>

datatype request =
    GET_devices_scan
  | POST_devices_connect string
  | POST_devices_disconnect
  | GET_devices_status
  | POST_panel_text text_request
  | POST_panel_image js_file
  | POST_panel_mode panel_mode
  | POST_panel_brightness int
  | POST_panel_orientation int
  | GET_panel_device_info
  | POST_panel_pixels "pixel_data list"
  | POST_panel_mode_clock clock_settings
  | POST_panel_power bool

datatype 'a response = Rejected string | HttpError string "string option" | HttpOk 'a

datatype error = Error string

record backend =
  scan_reply :: "device list response"
  connect_reply :: "string \<Rightarrow> unit response"
  disconnect_reply :: "unit response"
  status_reply :: "device_status response"
  text_reply :: "text_request \<Rightarrow> unit response"
  image_reply :: "js_file \<Rightarrow> unit response"
  mode_reply :: "panel_mode \<Rightarrow> unit response"
  brightness_reply :: "int \<Rightarrow> unit response"
  orientation_reply :: "int \<Rightarrow> unit response"
  info_reply :: "device_info response"
  pixels_reply :: "pixel_data list \<Rightarrow> unit response"
  clock_reply :: "clock_settings \<Rightarrow> unit response"
  power_reply :: "bool \<Rightarrow> unit response"

text \<open>
  The three ways the methods turn a failed response into an exception:
  \<^verbatim>\<open>throw new Error(`Scan failed: ${response.statusText}`)\<close>,
  \<^verbatim>\<open>throw new Error(error.detail || 'Failed to send text')\<close> and
  \<^verbatim>\<open>throw new Error('Failed to send pixels')\<close>. A rejected \<^verbatim>\<open>fetch\<close> propagates,
  and so does a body that \<^verbatim>\<open>response.json()\<close> cannot parse: both are \<open>Rejected\<close>.
\<close>

definition throw_statusText :: "string \<Rightarrow> 'a response \<Rightarrow> error + 'a" where
  "throw_statusText prefix r =
     (case r of Rejected m \<Rightarrow> Inl (Error m)
      | HttpError statusText detail \<Rightarrow> Inl (Error (prefix @ statusText))
      | HttpOk v \<Rightarrow> Inr v)"

definition throw_detail :: "string \<Rightarrow> 'a response \<Rightarrow> error + 'a" where
  "throw_detail fallback r =
     (case r of Rejected m \<Rightarrow> Inl (Error m)
      | HttpError statusText detail \<Rightarrow>
          Inl (Error (if truthy_str detail then the detail else fallback))
      | HttpOk v \<Rightarrow> Inr v)"

definition throw_fixed :: "string \<Rightarrow> 'a response \<Rightarrow> error + 'a" where
  "throw_fixed msg r =
     (case r of Rejected m \<Rightarrow> Inl (Error m)
      | HttpError statusText detail \<Rightarrow> Inl (Error msg)
      | HttpOk v \<Rightarrow> Inr v)"

definition mode_name :: "panel_mode \<Rightarrow> string" where
  "mode_name m = (case m of clock \<Rightarrow> ''clock'' | rhythm \<Rightarrow> ''rhythm'' | diy \<Rightarrow> ''diy'')"

text \<open>Each method returns the request it issued and what the caller gets back.\<close>

definition api_scanDevices :: "backend \<Rightarrow> request \<times> (error + device list)" where
  "api_scanDevices be = (GET_devices_scan, throw_statusText ''Scan failed: '' (scan_reply be))"

definition api_connect :: "backend \<Rightarrow> string \<Rightarrow> request \<times> (error + unit)" where
  "api_connect be deviceAddress =
     (POST_devices_connect deviceAddress,
      throw_statusText ''Connection failed: '' (connect_reply be deviceAddress))"

definition api_disconnect :: "backend \<Rightarrow> request \<times> (error + unit)" where
  "api_disconnect be =
     (POST_devices_disconnect, throw_statusText ''Disconnection failed: '' (disconnect_reply be))"

definition api_getStatus :: "backend \<Rightarrow> request \<times> (error + device_status)" where
  "api_getStatus be =
     (GET_devices_status, throw_statusText ''Get status failed: '' (status_reply be))"

definition api_sendText :: "backend \<Rightarrow> text_request \<Rightarrow> request \<times> (error + unit)" where
  "api_sendText be req = (POST_panel_text req, throw_detail ''Failed to send text'' (text_reply be req))"

definition api_sendImage :: "backend \<Rightarrow> js_file \<Rightarrow> request \<times> (error + unit)" where
  "api_sendImage be f = (POST_panel_image f, throw_detail ''Failed to send image'' (image_reply be f))"

definition api_setMode :: "backend \<Rightarrow> panel_mode \<Rightarrow> request \<times> (error + unit)" where
  "api_setMode be m =
     (POST_panel_mode m,
      throw_detail (''Failed to set '' @ mode_name m @ '' mode'') (mode_reply be m))"

definition api_setBrightness :: "backend \<Rightarrow> int \<Rightarrow> request \<times> (error + unit)" where
  "api_setBrightness be b =
     (POST_panel_brightness b, throw_detail ''Failed to set brightness'' (brightness_reply be b))"

definition api_setOrientation :: "backend \<Rightarrow> int \<Rightarrow> request \<times> (error + unit)" where
  "api_setOrientation be v =
     (POST_panel_orientation v,
      throw_detail ''Failed to set orientation'' (orientation_reply be v))"

definition api_getDeviceInfo :: "backend \<Rightarrow> request \<times> (error + device_info)" where
  "api_getDeviceInfo be = (GET_panel_device_info, throw_fixed ''Failed to get device info'' (info_reply be))"

definition api_sendPixels :: "backend \<Rightarrow> pixel_data list \<Rightarrow> request \<times> (error + unit)" where
  "api_sendPixels be pixels =
     (POST_panel_pixels pixels, throw_fixed ''Failed to send pixels'' (pixels_reply be pixels))"

definition api_setClockMode :: "backend \<Rightarrow> clock_settings \<Rightarrow> request \<times> (error + unit)" where
  "api_setClockMode be settings =
     (POST_panel_mode_clock settings,
      throw_fixed ''Failed to set clock mode'' (clock_reply be settings))"

definition api_setPower :: "backend \<Rightarrow> bool \<Rightarrow> request \<times> (error + unit)" where
  "api_setPower be on = (POST_panel_power on, throw_detail ''Failed to set power'' (power_reply be on))"

section \<open>What a handler does\<close>

text \<open>
  A handler is run on the state it was invoked with and on the backend that answers its
  requests. Its effect is the state it leaves, the requests it sent (in order), the
  notifications it showed, and the exception it let escape, if any.
\<close>

datatype toast = toast_success string | toast_error string

record 's effect =
  after :: 's
  sent :: "request list"
  shown :: "toast list"
  thrown :: "error option"


definition returned :: "'s \<Rightarrow> request list \<Rightarrow> toast list \<Rightarrow> 's effect" where
  "returned st qs ts = \<lparr>after = st, sent = qs, shown = ts, thrown = None\<rparr>"

definition threw :: "'s \<Rightarrow> request list \<Rightarrow> error \<Rightarrow> 's effect" where
  "threw st qs e = \<lparr>after = st, sent = qs, shown = [], thrown = Some e\<rparr>"

text \<open>\<^verbatim>\<open>s.replace(pat, rep)\<close> with a string pattern replaces the first occurrence only.\<close>

fun replace_first :: "string \<Rightarrow> string \<Rightarrow> string \<Rightarrow> string" where
  "replace_first pat rep [] = (if pat = [] then rep else [])"
| "replace_first pat rep (c # cs) =
     (if take (length pat) (c # cs) = pat then rep @ drop (length pat) (c # cs)
      else c # replace_first pat rep cs)"

section \<open>Session store and dispatcher methods (context/AppContext.tsx)\<close>

record ctx_state =
  ctx_deviceInfo :: "device_info option"
  ctx_connected :: bool
  ctx_deviceAddress :: "string option"
  ctx_devices :: "device list"
  ctx_scanning :: bool
  ctx_status :: device_status

definition ctx_init :: ctx_state where
  "ctx_init = \<lparr>ctx_deviceInfo = None, ctx_connected = False, ctx_deviceAddress = None,
                ctx_devices = [], ctx_scanning = False,
                ctx_status = \<lparr>connected = False, device_address = None\<rparr>\<rparr>"

text \<open>
  The observer registered with \<^verbatim>\<open>api.connectWebSocket\<close>:
  \<^verbatim>\<open>
  (msg) => {
    setStatus({ connected: msg.connected, device_address: msg.device_address });
    setConnected(msg.connected);
    if (msg.device_address) { setDeviceAddress(msg.device_address); }
  }
  \<close>
\<close>

definition onStatusFrame :: "websocket_message \<Rightarrow> ctx_state \<Rightarrow> ctx_state" where
  "onStatusFrame msg st =
     (let st1 = st\<lparr>ctx_status := \<lparr>connected = mconnected msg,
                                   device_address = mdevice_address msg\<rparr>,
                    ctx_connected := mconnected msg\<rparr>
      in if truthy_str (mdevice_address msg)
         then st1\<lparr>ctx_deviceAddress := mdevice_address msg\<rparr>
         else st1)"

text \<open>
  \<^verbatim>\<open>scanDevices\<close> suspends at its \<^verbatim>\<open>await\<close>, and other handlers may run before
  the reply arrives. It is two steps: what runs up to the \<^verbatim>\<open>await\<close>
  (\<^verbatim>\<open>setScanning(true)\<close> and the request), and what runs when the promise settles
  (\<^verbatim>\<open>setDevices\<close> on success, rethrow on failure, \<^verbatim>\<open>setScanning(false)\<close> in
  \<^verbatim>\<open>finally\<close>).
\<close>

definition scanDevices_begin :: "ctx_state \<Rightarrow> ctx_state effect" where
  "scanDevices_begin st = returned (st\<lparr>ctx_scanning := True\<rparr>) [GET_devices_scan] []"

definition scanDevices_settle :: "error + device list \<Rightarrow> ctx_state \<Rightarrow> ctx_state effect" where
  "scanDevices_settle r st =
     (case r of
        Inr foundDevices \<Rightarrow> returned (st\<lparr>ctx_devices := foundDevices, ctx_scanning := False\<rparr>) [] []
      | Inl e \<Rightarrow> threw (st\<lparr>ctx_scanning := False\<rparr>) [] e)"

definition scanDevices :: "backend \<Rightarrow> ctx_state \<Rightarrow> ctx_state effect" where
  "scanDevices be st =
     (let b = scanDevices_begin st;
          e = scanDevices_settle (snd (api_scanDevices be)) (after b)
      in e\<lparr>sent := sent b @ sent e\<rparr>)"

text \<open>
  \<^verbatim>\<open>
  const connect = async (address: string) => {
    try {
      await api.connect(address);
      const info = await api.getDeviceInfo();
      setDeviceInfo(info); setConnected(true); setDeviceAddress(address);
    } catch (error) { console.error('Connection failed:', error); throw error; }
  };
  \<close>
\<close>

definition ctx_connect :: "backend \<Rightarrow> string \<Rightarrow> ctx_state \<Rightarrow> ctx_state effect" where
  "ctx_connect be addr st =
     (case api_connect be addr of
        (q1, Inl e) \<Rightarrow> threw st [q1] e
      | (q1, Inr u) \<Rightarrow>
          (case api_getDeviceInfo be of
             (q2, Inl e) \<Rightarrow> threw st [q1, q2] e
           | (q2, Inr info) \<Rightarrow>
               returned (st\<lparr>ctx_deviceInfo := Some info, ctx_connected := True,
                            ctx_deviceAddress := Some addr\<rparr>) [q1, q2] []))"

text \<open>
  \<^verbatim>\<open>
  const disconnect = async () => {
    try {
      await api.disconnect();
      setConnected(false); setDeviceAddress(null); setDeviceInfo(null);
    } catch (error) { console.error('Disconnect failed:', error); throw error; }
  };
  \<close>
\<close>

definition ctx_disconnect :: "backend \<Rightarrow> ctx_state \<Rightarrow> ctx_state effect" where
  "ctx_disconnect be st =
     (case api_disconnect be of
        (q1, Inl e) \<Rightarrow> threw st [q1] e
      | (q1, Inr u) \<Rightarrow>
          returned (st\<lparr>ctx_connected := False, ctx_deviceAddress := None,
                       ctx_deviceInfo := None\<rparr>) [q1] [])"

text \<open>
  The six panel methods have one shape:
  \<^verbatim>\<open>try { await api.sendText(request); } catch (error) { console.error(...); throw error; }\<close>
  They read nothing from the store and write nothing to it.
\<close>

definition forward :: "request \<times> (error + unit) \<Rightarrow> 's \<Rightarrow> 's effect" where
  "forward call st =
     (case call of (q, Inl e) \<Rightarrow> threw st [q] e | (q, Inr u) \<Rightarrow> returned st [q] [])"

definition ctx_sendText :: "backend \<Rightarrow> text_request \<Rightarrow> ctx_state \<Rightarrow> ctx_state effect" where
  "ctx_sendText be request st = forward (api_sendText be request) st"

definition ctx_sendImage :: "backend \<Rightarrow> js_file \<Rightarrow> ctx_state \<Rightarrow> ctx_state effect" where
  "ctx_sendImage be f st = forward (api_sendImage be f) st"

definition ctx_setMode :: "backend \<Rightarrow> panel_mode \<Rightarrow> ctx_state \<Rightarrow> ctx_state effect" where
  "ctx_setMode be m st = forward (api_setMode be m) st"

definition ctx_setBrightness :: "backend \<Rightarrow> int \<Rightarrow> ctx_state \<Rightarrow> ctx_state effect" where
  "ctx_setBrightness be b st = forward (api_setBrightness be b) st"

definition ctx_setOrientation :: "backend \<Rightarrow> int \<Rightarrow> ctx_state \<Rightarrow> ctx_state effect" where
  "ctx_setOrientation be v st = forward (api_setOrientation be v) st"

definition ctx_setPower :: "backend \<Rightarrow> bool \<Rightarrow> ctx_state \<Rightarrow> ctx_state effect" where
  "ctx_setPower be on st = forward (api_setPower be on) st"

text \<open>
  The store's mutations as events: a completed \<^verbatim>\<open>connect\<close>, a completed
  \<^verbatim>\<open>disconnect\<close>, and a status frame from the push channel.
\<close>

datatype store_event =
    Connect_call backend string
  | Disconnect_call backend
  | Status_frame websocket_message

fun apply_store_event :: "ctx_state \<Rightarrow> store_event \<Rightarrow> ctx_state" where
  "apply_store_event st (Connect_call be a) = after (ctx_connect be a st)"
| "apply_store_event st (Disconnect_call be) = after (ctx_disconnect be st)"
| "apply_store_event st (Status_frame msg) = onStatusFrame msg st"

definition run_store :: "store_event list \<Rightarrow> ctx_state \<Rightarrow> ctx_state" where
  "run_store evs st = foldl apply_store_event st evs"

definition address_iff_connected :: "ctx_state \<Rightarrow> bool" where
  "address_iff_connected st = ((ctx_deviceAddress st \<noteq> None) = ctx_connected st)"


section \<open>The application's handlers (App.tsx)\<close>

text \<open>
  \<^verbatim>\<open>App\<close> keeps its own state with \<^verbatim>\<open>useState\<close>; the fields below carry the
  source's names behind the prefix \<open>app_\<close>. A handler reads the values of the render
  it was created in and queues its updates; run without interleaving, that is the
  state it starts from and the state it leaves.
\<close>

record app_state =
  app_status :: device_status
  app_deviceInfo :: "device_info option"
  app_devices :: "device list"
  app_scanning :: bool
  app_text :: string
  app_textColor :: string
  app_font :: string
  app_animation :: int
  app_speed :: int
  app_rainbowMode :: int
  app_charHeight :: "int option"
  app_clockStyle :: int
  app_format24 :: bool
  app_showDate :: bool
  app_brightness :: int
  app_orientation :: int
  app_isPowered :: bool
  app_pixelColor :: string
  app_pixelGrid :: pixel_grid
  app_imagePreview :: "string option"

definition app_init :: app_state where
  "app_init =
     \<lparr>app_status = \<lparr>connected = False, device_address = None\<rparr>, app_deviceInfo = None,
      app_devices = [], app_scanning = False, app_text = ''Hello!'',
      app_textColor = ''FF00FF'', app_font = ''CUSONG'', app_animation = 0, app_speed = 80,
      app_rainbowMode = 0, app_charHeight = Some 16, app_clockStyle = 1,
      app_format24 = True, app_showDate = True, app_brightness = 50, app_orientation = 0,
      app_isPowered = True, app_pixelColor = ''#FF00FF'', app_pixelGrid = [],
      app_imagePreview = None\<rparr>"

text \<open>\<^verbatim>\<open>handleScan\<close>, in the same two steps as \<^verbatim>\<open>scanDevices\<close> of the context.\<close>

definition handleScan_begin :: "app_state \<Rightarrow> app_state effect" where
  "handleScan_begin st = returned (st\<lparr>app_scanning := True\<rparr>) [GET_devices_scan] []"

definition handleScan_settle :: "error + device list \<Rightarrow> app_state \<Rightarrow> app_state effect" where
  "handleScan_settle r st =
     (case r of
        Inr foundDevices \<Rightarrow>
          returned (st\<lparr>app_devices := foundDevices, app_scanning := False\<rparr>) []
            [toast_success (''Found '' @ show_nat (length foundDevices) @ '' device(s)'')]
      | Inl e \<Rightarrow> returned (st\<lparr>app_scanning := False\<rparr>) [] [toast_error ''Scan failed''])"

definition handleScan :: "backend \<Rightarrow> app_state \<Rightarrow> app_state effect" where
  "handleScan be st =
     (let b = handleScan_begin st;
          e = handleScan_settle (snd (api_scanDevices be)) (after b)
      in e\<lparr>sent := sent b @ sent e\<rparr>)"

text \<open>
  \<^verbatim>\<open>
  const handleConnect = async (address: string) => {
    try {
      await api.connect(address);
      const newStatus = await api.getStatus();
      setStatus(newStatus);
      if (newStatus.connected) {
        const info = await api.getDeviceInfo();
        setDeviceInfo(info);
        toast.success('Connected!');
      }
    } catch (error) { console.error(...); toast.error('Connection failed'); }
  };
  \<close>
\<close>

definition handleConnect :: "backend \<Rightarrow> string \<Rightarrow> app_state \<Rightarrow> app_state effect" where
  "handleConnect be addr st =
     (case api_connect be addr of
        (q1, Inl e) \<Rightarrow> returned st [q1] [toast_error ''Connection failed'']
      | (q1, Inr u) \<Rightarrow>
          (case api_getStatus be of
             (q2, Inl e) \<Rightarrow> returned st [q1, q2] [toast_error ''Connection failed'']
           | (q2, Inr newStatus) \<Rightarrow>
               (let st1 = st\<lparr>app_status := newStatus\<rparr> in
                if connected newStatus then
                  (case api_getDeviceInfo be of
                     (q3, Inl e) \<Rightarrow> returned st1 [q1, q2, q3] [toast_error ''Connection failed'']
                   | (q3, Inr info) \<Rightarrow>
                       returned (st1\<lparr>app_deviceInfo := Some info\<rparr>) [q1, q2, q3]
                         [toast_success ''Connected!''])
                else returned st1 [q1, q2] [])))"

text \<open>
  \<^verbatim>\<open>
  const handleDisconnect = async () => {
    try {
      await api.disconnect();
      const newStatus = await api.getStatus();
      setStatus(newStatus);
      setDeviceInfo(null);
      toast.success('Disconnected');
    } catch (error) { console.error(...); toast.error('Disconnect failed'); }
  };
  \<close>
\<close>

definition handleDisconnect :: "backend \<Rightarrow> app_state \<Rightarrow> app_state effect" where
  "handleDisconnect be st =
     (case api_disconnect be of
        (q1, Inl e) \<Rightarrow> returned st [q1] [toast_error ''Disconnect failed'']
      | (q1, Inr u) \<Rightarrow>
          (case api_getStatus be of
             (q2, Inl e) \<Rightarrow> returned st [q1, q2] [toast_error ''Disconnect failed'']
           | (q2, Inr newStatus) \<Rightarrow>
               returned (st\<lparr>app_status := newStatus, app_deviceInfo := None\<rparr>) [q1, q2]
                 [toast_success ''Disconnected'']))"

definition handleSendText :: "backend \<Rightarrow> app_state \<Rightarrow> app_state effect" where
  "handleSendText be st =
     (if \<not> connected (app_status st) then returned st [] [toast_error ''Connect to device first'']
      else
        (case api_sendText be
                \<lparr>text_body = app_text st, color = Some (app_textColor st),
                 font = Some (app_font st), animation = Some (app_animation st),
                 speed = Some (app_speed st), rainbow_mode = Some (app_rainbowMode st),
                 char_height = app_charHeight st\<rparr> of
           (q, Inl e) \<Rightarrow> returned st [q] [toast_error ''Failed to send text'']
         | (q, Inr u) \<Rightarrow> returned st [q] [toast_success ''Text sent'']))"

text \<open>
  \<^verbatim>\<open>URL.createObjectURL\<close> is the browser's; only that a preview is set matters here.
\<close>

definition createObjectURL :: "js_file \<Rightarrow> string" where
  "createObjectURL f = ''blob:'' @ f"

definition handleImageUpload :: "backend \<Rightarrow> js_file option \<Rightarrow> app_state \<Rightarrow> app_state effect" where
  "handleImageUpload be files0 st =
     (case files0 of
        None \<Rightarrow> returned st [] []
      | Some f \<Rightarrow>
          (let st1 = st\<lparr>app_imagePreview := Some (createObjectURL f)\<rparr> in
           if \<not> connected (app_status st) then
             returned st1 [] [toast_error ''Connect to device first'']
           else
             (case api_sendImage be f of
                (q, Inl e) \<Rightarrow> returned st1 [q] [toast_error ''Failed to send image'']
              | (q, Inr u) \<Rightarrow> returned st1 [q] [toast_success ''Image sent!''])))"

text \<open>
  \<^verbatim>\<open>coords.split(',').map(Number)\<close>, destructured into \<^verbatim>\<open>[x, y]\<close>. \<^verbatim>\<open>Number\<close> is
  the language's conversion and is a parameter; \<open>None\<close> is \<^verbatim>\<open>NaN\<close>, and a missing
  second part leaves \<^verbatim>\<open>y\<close> undefined.
\<close>

fun split_comma :: "string \<Rightarrow> string list" where
  "split_comma [] = [[]]"
| "split_comma (c # cs) =
     (if c = CHR '','' then [] # split_comma cs
      else (case split_comma cs of [] \<Rightarrow> [[c]] | p # ps \<Rightarrow> (c # p) # ps))"

definition pixel_of_entry :: "(string \<Rightarrow> int option) \<Rightarrow> string \<times> string \<Rightarrow> pixel_data" where
  "pixel_of_entry Number entry =
     (case entry of (coords, col) \<Rightarrow>
        (case map Number (split_comma coords) of
           [] \<Rightarrow> \<lparr>px = None, py = None, pcolor = replace_first ''#'' [] col\<rparr>
         | [x] \<Rightarrow> \<lparr>px = x, py = None, pcolor = replace_first ''#'' [] col\<rparr>
         | x # y # rest \<Rightarrow> \<lparr>px = x, py = y, pcolor = replace_first ''#'' [] col\<rparr>))"

text \<open>
  \<^verbatim>\<open>
  const handleSendPixels = async () => {
    if (!status.connected) { toast.error('Connect to device first'); return; }
    const pixelCount = Object.keys(pixelGrid).length;
    if (pixelCount === 0) { toast.error('No pixels to send'); return; }
    try {
      await api.setMode('diy');
      const pixels = Object.entries(pixelGrid).map(...);
      await api.sendPixels(pixels);
      toast.success(`${pixelCount} pixels sent!`);
    } catch (error) { console.error(...); toast.error('Failed to send pixels'); }
  };
  \<close>
\<close>

definition handleSendPixels ::
  "(string \<Rightarrow> int option) \<Rightarrow> backend \<Rightarrow> app_state \<Rightarrow> app_state effect" where
  "handleSendPixels Number be st =
     (if \<not> connected (app_status st) then returned st [] [toast_error ''Connect to device first'']
      else
        (let pixelCount = length (app_pixelGrid st) in
         if pixelCount = 0 then returned st [] [toast_error ''No pixels to send'']
         else
           (case api_setMode be diy of
              (q1, Inl e) \<Rightarrow> returned st [q1] [toast_error ''Failed to send pixels'']
            | (q1, Inr u) \<Rightarrow>
                (case api_sendPixels be (map (pixel_of_entry Number) (app_pixelGrid st)) of
                   (q2, Inl e) \<Rightarrow> returned st [q1, q2] [toast_error ''Failed to send pixels'']
                 | (q2, Inr u) \<Rightarrow>
                     returned st [q1, q2]
                       [toast_success (show_nat pixelCount @ '' pixels sent!'')]))))"

definition handleSetClockMode :: "backend \<Rightarrow> app_state \<Rightarrow> app_state effect" where
  "handleSetClockMode be st =
     (if \<not> connected (app_status st) then returned st [] [toast_error ''Connect to device first'']
      else
        (case api_setClockMode be
                \<lparr>style = app_clockStyle st, format_24 = app_format24 st,
                 show_date = app_showDate st\<rparr> of
           (q, Inl e) \<Rightarrow> returned st [q] [toast_error ''Failed to set clock mode'']
         | (q, Inr u) \<Rightarrow> returned st [q] [toast_success ''Clock mode activated'']))"

text \<open>
  \<^verbatim>\<open>
  const handleSetBrightness = async (value: number) => {
    setBrightness(value);
    if (!status.connected) return;
    try { await api.setBrightness({ brightness: value }); }
    catch (error) { console.error('Failed to set brightness:', error); }
  };
  \<close>
\<close>

definition handleSetBrightness :: "backend \<Rightarrow> int \<Rightarrow> app_state \<Rightarrow> app_state effect" where
  "handleSetBrightness be v st =
     (let st1 = st\<lparr>app_brightness := v\<rparr> in
      if \<not> connected (app_status st) then returned st1 [] []
      else
        (case api_setBrightness be v of
           (q, Inl e) \<Rightarrow> returned st1 [q] []
         | (q, Inr u) \<Rightarrow> returned st1 [q] []))"

definition handleSetOrientation :: "backend \<Rightarrow> int \<Rightarrow> app_state \<Rightarrow> app_state effect" where
  "handleSetOrientation be v st =
     (let st1 = st\<lparr>app_orientation := v\<rparr> in
      if \<not> connected (app_status st) then returned st1 [] []
      else
        (case api_setOrientation be v of
           (q, Inl e) \<Rightarrow> returned st1 [q] [toast_error ''Failed to set orientation'']
         | (q, Inr u) \<Rightarrow> returned st1 [q] [toast_success ''Orientation updated'']))"

definition handleTogglePower :: "backend \<Rightarrow> app_state \<Rightarrow> app_state effect" where
  "handleTogglePower be st =
     (if \<not> connected (app_status st) then returned st [] [toast_error ''Connect to device first'']
      else
        (case api_setPower be (\<not> app_isPowered st) of
           (q, Inl e) \<Rightarrow> returned st [q] [toast_error ''Failed to toggle power'']
         | (q, Inr u) \<Rightarrow>
             returned (st\<lparr>app_isPowered := \<not> app_isPowered st\<rparr>) [q]
               [toast_success (if app_isPowered st then ''Power OFF'' else ''Power ON'')]))"

text \<open>The command families, as the application submits them.\<close>

datatype command =
    SendText
  | SendImage js_file
  | SendPixels
  | SetMode
  | SetBrightness int
  | SetOrientation int
  | SetPower

fun submit :: "(string \<Rightarrow> int option) \<Rightarrow> backend \<Rightarrow> command \<Rightarrow> app_state \<Rightarrow> app_state effect" where
  "submit Number be SendText st = handleSendText be st"
| "submit Number be (SendImage f) st = handleImageUpload be (Some f) st"
| "submit Number be SendPixels st = handleSendPixels Number be st"
| "submit Number be SetMode st = handleSetClockMode be st"
| "submit Number be (SetBrightness v) st = handleSetBrightness be v st"
| "submit Number be (SetOrientation v) st = handleSetOrientation be v st"
| "submit Number be SetPower st = handleTogglePower be st"


section \<open>Card components over the context\<close>

text \<open>
  \<^verbatim>\<open>EditorCard\<close>, \<^verbatim>\<open>ModesCard\<close> and \<^verbatim>\<open>SettingsCard\<close> gate on the context's
  \<^verbatim>\<open>status.connected\<close> and call the context's methods. Their state is the store
  together with the component's own \<^verbatim>\<open>useState\<close> values.
\<close>

record editor_card =
  ec_text :: string
  ec_textColor :: string

record settings_card =
  sc_brightness :: int
  sc_orientation :: int
  sc_isPowered :: bool

definition EditorCard_handleSendText ::
  "backend \<Rightarrow> ctx_state \<times> editor_card \<Rightarrow> (ctx_state \<times> editor_card) effect" where
  "EditorCard_handleSendText be s =
     (case s of (ctx, ec) \<Rightarrow>
        if \<not> connected (ctx_status ctx) then
          returned s [] [toast_error ''Connect to a device first'']
        else
          (let r = ctx_sendText be
                     \<lparr>text_body = ec_text ec,
                      color = Some (replace_first ''#'' [] (ec_textColor ec)),
                      font = Some ''CUSONG'', animation = Some 0, speed = Some 80,
                      rainbow_mode = Some 0, char_height = None\<rparr> ctx
           in returned (after r, ec) (sent r)
                (case thrown r of None \<Rightarrow> [toast_success ''Text sent'']
                 | Some e \<Rightarrow> [toast_error ''Failed to send text''])))"

definition EditorCard_handleImageUpload ::
  "backend \<Rightarrow> js_file option \<Rightarrow> ctx_state \<times> editor_card \<Rightarrow> (ctx_state \<times> editor_card) effect" where
  "EditorCard_handleImageUpload be files0 s =
     (case s of (ctx, ec) \<Rightarrow>
        if \<not> connected (ctx_status ctx) then
          returned s [] [toast_error ''Connect to a device first'']
        else
          (case files0 of
             None \<Rightarrow> returned s [] []
           | Some f \<Rightarrow>
               (let r = ctx_sendImage be f ctx
                in returned (after r, ec) (sent r)
                     (case thrown r of None \<Rightarrow> [toast_success ''Image sent'']
                      | Some e \<Rightarrow> [toast_error ''Failed to send image'']))))"

definition mode_title :: "panel_mode \<Rightarrow> string" where
  "mode_title m = (case m of diy \<Rightarrow> ''DIY Mode'' | clock \<Rightarrow> ''Clock'' | rhythm \<Rightarrow> ''Music Beat'')"

definition ModesCard_handleModeChange ::
  "backend \<Rightarrow> panel_mode \<Rightarrow> ctx_state \<Rightarrow> ctx_state effect" where
  "ModesCard_handleModeChange be modeId ctx =
     (if \<not> connected (ctx_status ctx) then
        returned ctx [] [toast_error ''Connect to a device first'']
      else
        (let r = ctx_setMode be modeId ctx
         in returned (after r) (sent r)
              (case thrown r of None \<Rightarrow> [toast_success (mode_title modeId @ '' activated'')]
               | Some e \<Rightarrow> [toast_error ''Failed to set mode''])))"

definition SettingsCard_handleBrightnessChange ::
  "backend \<Rightarrow> int \<Rightarrow> ctx_state \<times> settings_card \<Rightarrow> (ctx_state \<times> settings_card) effect" where
  "SettingsCard_handleBrightnessChange be v s =
     (case s of (ctx, sc) \<Rightarrow>
        (let sc1 = sc\<lparr>sc_brightness := v\<rparr> in
         if \<not> connected (ctx_status ctx) then returned (ctx, sc1) [] []
         else
           (let r = ctx_setBrightness be v ctx
            in returned (after r, sc1) (sent r)
                 (case thrown r of None \<Rightarrow> []
                  | Some e \<Rightarrow> [toast_error ''Failed to set brightness'']))))"

text \<open>The degree sign that ends \<^verbatim>\<open>`Rotated to ${value * 90}`\<close> in the source, in UTF-8.\<close>

definition degree_sign :: string where
  "degree_sign = [char_of (194::nat), char_of (176::nat)]"

definition SettingsCard_handleOrientationChange ::
  "backend \<Rightarrow> int \<Rightarrow> ctx_state \<times> settings_card \<Rightarrow> (ctx_state \<times> settings_card) effect" where
  "SettingsCard_handleOrientationChange be v s =
     (case s of (ctx, sc) \<Rightarrow>
        (let sc1 = sc\<lparr>sc_orientation := v\<rparr> in
         if \<not> connected (ctx_status ctx) then returned (ctx, sc1) [] []
         else
           (let r = ctx_setOrientation be v ctx
            in returned (after r, sc1) (sent r)
                 (case thrown r of
                    None \<Rightarrow> [toast_success (''Rotated to '' @ show_int (v * 90) @ degree_sign)]
                  | Some e \<Rightarrow> [toast_error ''Failed to set orientation'']))))"

text \<open>
  \<^verbatim>\<open>
  const handlePowerToggle = async () => {
    if (!status.connected) { toast.error('Connect to a device first'); return; }
    const newPowerState = !isPowered;
    setIsPowered(newPowerState);
    try { await setPower({ on: newPowerState });
          toast.success(newPowerState ? 'Power ON' : 'Power OFF'); }
    catch (error) { toast.error('Failed to toggle power'); setIsPowered(!newPowerState); }
  };
  \<close>
\<close>

definition SettingsCard_handlePowerToggle ::
  "backend \<Rightarrow> ctx_state \<times> settings_card \<Rightarrow> (ctx_state \<times> settings_card) effect" where
  "SettingsCard_handlePowerToggle be s =
     (case s of (ctx, sc) \<Rightarrow>
        if \<not> connected (ctx_status ctx) then
          returned s [] [toast_error ''Connect to a device first'']
        else
          (let newPowerState = \<not> sc_isPowered sc;
               r = ctx_setPower be newPowerState ctx
           in (case thrown r of
                 None \<Rightarrow>
                   returned (after r, sc\<lparr>sc_isPowered := newPowerState\<rparr>) (sent r)
                     [toast_success (if newPowerState then ''Power ON'' else ''Power OFF'')]
               | Some e \<Rightarrow>
                   returned (after r, sc\<lparr>sc_isPowered := \<not> newPowerState\<rparr>) (sent r)
                     [toast_error ''Failed to toggle power''])))"


section \<open>Push channel and reconnection (services/api.ts)\<close>

text \<open>
  \<^verbatim>\<open>LEDPanelAPI\<close> holds \<^verbatim>\<open>baseUrl\<close>, \<^verbatim>\<open>ws\<close>, \<^verbatim>\<open>wsReconnectTimer\<close> and
  \<^verbatim>\<open>statusCallbacks\<close>. Its handlers run when the browser delivers socket events and
  fires timers, so the model carries what the browser holds as well: every
  \<^verbatim>\<open>WebSocket\<close> object created (a socket is known by its position in \<open>sockets\<close>,
  and keeps the \<^verbatim>\<open>onMessage\<close> argument its \<^verbatim>\<open>onclose\<close> closure captured), every
  timer created by \<^verbatim>\<open>setTimeout\<close> (timer ids count from 1, as in browsers, so an id
  is truthy), and a clock in milliseconds. \<open>invoked\<close> logs each call of an observer.
  An observer is known by its identity.
\<close>

type_synonym callback = nat

datatype ready_state = CONNECTING | OPEN | CLOSING | CLOSED

record websocket =
  ws_url :: string
  readyState :: ready_state
  ws_observer :: callback

datatype timer_status = Pending | Fired | Cleared

record timer =
  due :: nat
  reopen_with :: callback
  tstatus :: timer_status

record world =
  baseUrl :: string
  ws :: "nat option"
  wsReconnectTimer :: "nat option"
  statusCallbacks :: "callback list"
  sockets :: "websocket list"
  timers :: "timer list"
  now :: nat
  invoked :: "(callback \<times> websocket_message) list"

definition new_LEDPanelAPI :: "string \<Rightarrow> world" where
  "new_LEDPanelAPI url =
     \<lparr>baseUrl = url, ws = None, wsReconnectTimer = None, statusCallbacks = [],
      sockets = [], timers = [], now = 0, invoked = []\<rparr>"

definition default_baseUrl :: string where
  "default_baseUrl = ''http://127.0.0.1:8000''"

text \<open>\<^verbatim>\<open>this.ws?.readyState === WebSocket.OPEN\<close>\<close>

definition ws_is_open :: "world \<Rightarrow> bool" where
  "ws_is_open w =
     (case ws w of None \<Rightarrow> False
      | Some i \<Rightarrow> i < length (sockets w) \<and> readyState (sockets w ! i) = OPEN)"

text \<open>
  \<^verbatim>\<open>new WebSocket(url)\<close> throws on a URL that is not a WebSocket URL; the
  \<^verbatim>\<open>try/catch\<close> around it then only logs.
\<close>

definition valid_ws_url :: "string \<Rightarrow> bool" where
  "valid_ws_url u = (take 5 u = ''ws://'' \<or> take 6 u = ''wss://'')"

definition setTimeout :: "callback \<Rightarrow> nat \<Rightarrow> world \<Rightarrow> nat \<times> world" where
  "setTimeout cb delay w =
     (length (timers w) + 1,
      w\<lparr>timers := timers w @ [\<lparr>due = now w + delay, reopen_with = cb, tstatus = Pending\<rparr>]\<rparr>)"

definition timer_pending :: "nat \<Rightarrow> world \<Rightarrow> bool" where
  "timer_pending t w =
     (0 < t \<and> t \<le> length (timers w) \<and> tstatus (timers w ! (t - 1)) = Pending)"

definition clearTimeout :: "nat \<Rightarrow> world \<Rightarrow> world" where
  "clearTimeout t w =
     (if timer_pending t w
      then w\<lparr>timers := (timers w)[t - 1 := (timers w ! (t - 1))\<lparr>tstatus := Cleared\<rparr>]\<rparr>
      else w)"

text \<open>
  \<^verbatim>\<open>
  connectWebSocket(onMessage) {
    this.statusCallbacks.push(onMessage);
    if (this.ws?.readyState === WebSocket.OPEN) { return; }
    const wsUrl = this.baseUrl.replace('http', 'ws') + '/ws';
    try {
      this.ws = new WebSocket(wsUrl);
      this.ws.onopen = ...; this.ws.onmessage = ...; this.ws.onerror = ...; this.ws.onclose = ...;
    } catch (error) { console.error('Failed to create WebSocket:', error); }
  }
  \<close>
\<close>

definition connectWebSocket :: "callback \<Rightarrow> world \<Rightarrow> world" where
  "connectWebSocket onMessage w =
     (let w1 = w\<lparr>statusCallbacks := statusCallbacks w @ [onMessage]\<rparr> in
      if ws_is_open w1 then w1
      else
        (let wsUrl = replace_first ''http'' ''ws'' (baseUrl w1) @ ''/ws'' in
         if valid_ws_url wsUrl then
           w1\<lparr>ws := Some (length (sockets w1)),
              sockets := sockets w1 @
                [\<lparr>ws_url = wsUrl, readyState = CONNECTING, ws_observer = onMessage\<rparr>]\<rparr>
         else w1))"

text \<open>
  \<^verbatim>\<open>
  onopen = () => { if (this.wsReconnectTimer) { clearTimeout(this.wsReconnectTimer);
                                                 this.wsReconnectTimer = null; } };
  onmessage = (event) => { try { const message = JSON.parse(event.data);
                                 this.statusCallbacks.forEach(callback => callback(message)); }
                           catch (error) { console.error(...); } };
  onclose = () => { this.wsReconnectTimer =
                      setTimeout(() => { this.connectWebSocket(onMessage); }, 3000); };
  \<close>
  The data of a message event is \<open>None\<close> when \<^verbatim>\<open>JSON.parse\<close> throws on it. The
  observers the application registers only set state and return normally, so
  \<^verbatim>\<open>forEach\<close> reaches every element of the list.
\<close>

definition ws_onopen :: "world \<Rightarrow> world" where
  "ws_onopen w =
     (case wsReconnectTimer w of
        None \<Rightarrow> w
      | Some t \<Rightarrow> if t \<noteq> 0 then (clearTimeout t w)\<lparr>wsReconnectTimer := None\<rparr> else w)"

definition ws_onmessage :: "websocket_message option \<Rightarrow> world \<Rightarrow> world" where
  "ws_onmessage data w =
     (case data of
        None \<Rightarrow> w
      | Some message \<Rightarrow>
          w\<lparr>invoked := invoked w @ map (\<lambda>callback. (callback, message)) (statusCallbacks w)\<rparr>)"

definition ws_onclose :: "callback \<Rightarrow> world \<Rightarrow> world" where
  "ws_onclose onMessage w =
     (case setTimeout onMessage 3000 w of (t, w1) \<Rightarrow> w1\<lparr>wsReconnectTimer := Some t\<rparr>)"

text \<open>
  \<^verbatim>\<open>WebSocket.close()\<close> starts the closing handshake of a socket that is connecting
  or open and does nothing otherwise; the socket's close event comes later.
\<close>

definition ws_close :: "nat \<Rightarrow> world \<Rightarrow> world" where
  "ws_close i w =
     (if i < length (sockets w) \<and> readyState (sockets w ! i) \<in> {CONNECTING, OPEN}
      then w\<lparr>sockets := (sockets w)[i := (sockets w ! i)\<lparr>readyState := CLOSING\<rparr>]\<rparr>
      else w)"

text \<open>
  \<^verbatim>\<open>
  disconnectWebSocket() {
    if (this.wsReconnectTimer) { clearTimeout(this.wsReconnectTimer); this.wsReconnectTimer = null; }
    if (this.ws) { this.ws.close(); this.ws = null; }
    this.statusCallbacks = [];
  }
  \<close>
\<close>

definition disconnectWebSocket :: "world \<Rightarrow> world" where
  "disconnectWebSocket w =
     (let w1 = (case wsReconnectTimer w of
                  None \<Rightarrow> w
                | Some t \<Rightarrow> if t \<noteq> 0 then (clearTimeout t w)\<lparr>wsReconnectTimer := None\<rparr> else w);
          w2 = (case ws w1 of None \<Rightarrow> w1 | Some i \<Rightarrow> (ws_close i w1)\<lparr>ws := None\<rparr>)
      in w2\<lparr>statusCallbacks := []\<rparr>)"

text \<open>\<^verbatim>\<open>indexOf\<close> and \<^verbatim>\<open>splice(index, 1)\<close> remove the first occurrence.\<close>

definition removeStatusCallback :: "callback \<Rightarrow> world \<Rightarrow> world" where
  "removeStatusCallback cb w = w\<lparr>statusCallbacks := remove1 cb (statusCallbacks w)\<rparr>"

text \<open>
  What can happen to an instance: the application calls a method, the browser opens or
  closes a socket, delivers a message on it, fires a timer that is due, or time passes.
  An event the browser cannot deliver (a message on a socket that is not open, a timer
  that is not pending or not yet due) changes nothing.
\<close>

datatype event =
    Call_connectWebSocket callback
  | Call_disconnectWebSocket
  | Call_removeStatusCallback callback
  | Socket_opens nat
  | Socket_closes nat
  | Socket_message nat "websocket_message option"
  | Timer_fires nat
  | Time_passes nat

definition socket_in :: "nat \<Rightarrow> ready_state set \<Rightarrow> world \<Rightarrow> bool" where
  "socket_in i rs w = (i < length (sockets w) \<and> readyState (sockets w ! i) \<in> rs)"

definition set_readyState :: "nat \<Rightarrow> ready_state \<Rightarrow> world \<Rightarrow> world" where
  "set_readyState i r w = w\<lparr>sockets := (sockets w)[i := (sockets w ! i)\<lparr>readyState := r\<rparr>]\<rparr>"

definition timer_due :: "nat \<Rightarrow> world \<Rightarrow> bool" where
  "timer_due t w = (timer_pending t w \<and> due (timers w ! (t - 1)) \<le> now w)"

fun step :: "world \<Rightarrow> event \<Rightarrow> world" where
  "step w (Call_connectWebSocket cb) = connectWebSocket cb w"
| "step w Call_disconnectWebSocket = disconnectWebSocket w"
| "step w (Call_removeStatusCallback cb) = removeStatusCallback cb w"
| "step w (Socket_opens i) =
     (if socket_in i {CONNECTING} w then ws_onopen (set_readyState i OPEN w) else w)"
| "step w (Socket_closes i) =
     (if socket_in i {CONNECTING, OPEN, CLOSING} w
      then ws_onclose (ws_observer (sockets w ! i)) (set_readyState i CLOSED w) else w)"
| "step w (Socket_message i data) =
     (if socket_in i {OPEN} w then ws_onmessage data w else w)"
| "step w (Timer_fires t) =
     (if timer_due t w
      then connectWebSocket (reopen_with (timers w ! (t - 1)))
             (w\<lparr>timers := (timers w)[t - 1 := (timers w ! (t - 1))\<lparr>tstatus := Fired\<rparr>]\<rparr>)
      else w)"
| "step w (Time_passes d) = w\<lparr>now := now w + d\<rparr>"

definition run :: "event list \<Rightarrow> world \<Rightarrow> world" where
  "run evs w = foldl step w evs"

text \<open>How many of the events of a trace entered \<^verbatim>\<open>connectWebSocket\<close>.\<close>

fun enters_connect :: "world \<Rightarrow> event \<Rightarrow> bool" where
  "enters_connect w (Call_connectWebSocket cb) = True"
| "enters_connect w (Timer_fires t) = timer_due t w"
| "enters_connect w e = False"

fun connect_calls :: "event list \<Rightarrow> world \<Rightarrow> nat" where
  "connect_calls [] w = 0"
| "connect_calls (e # es) w = (if enters_connect w e then 1 else 0) + connect_calls es (step w e)"

text \<open>
  A trace in which the application registers only the observer \<open>cb\<close> and neither
  tears the channel down nor removes an observer.
\<close>

fun registers_only :: "callback \<Rightarrow> event \<Rightarrow> bool" where
  "registers_only cb (Call_connectWebSocket c) = (c = cb)"
| "registers_only cb Call_disconnectWebSocket = False"
| "registers_only cb (Call_removeStatusCallback c) = False"
| "registers_only cb e = True"

text \<open>How often a frame delivered now invokes \<open>cb\<close>.\<close>

definition invocations_per_frame :: "callback \<Rightarrow> websocket_message \<Rightarrow> world \<Rightarrow> nat" where
  "invocations_per_frame cb m w =
     length (filter (\<lambda>c. c = (cb, m)) (invoked (ws_onmessage (Some m) w))) -
     length (filter (\<lambda>c. c = (cb, m)) (invoked w))"


section \<open>Concrete backends, states and traces\<close>

definition sample_info :: device_info where
  "sample_info = \<lparr>width = 16, height = 16, device_type = 1, led_type = 0, has_wifi = False\<rparr>"

text \<open>A backend that accepts every request and reports a session with the panel \<open>a\<close>.\<close>

definition backend_up :: "string \<Rightarrow> backend" where
  "backend_up a =
     \<lparr>scan_reply = HttpOk [\<lparr>name = ''Panel-1'', address = a, rssi = Some (- 60)\<rparr>],
      connect_reply = (\<lambda>d. HttpOk ()),
      disconnect_reply = HttpOk (),
      status_reply = HttpOk \<lparr>connected = True, device_address = Some a\<rparr>,
      text_reply = (\<lambda>r. HttpOk ()),
      image_reply = (\<lambda>f. HttpOk ()),
      mode_reply = (\<lambda>m. HttpOk ()),
      brightness_reply = (\<lambda>b. HttpOk ()),
      orientation_reply = (\<lambda>v. HttpOk ()),
      info_reply = HttpOk sample_info,
      pixels_reply = (\<lambda>p. HttpOk ()),
      clock_reply = (\<lambda>c. HttpOk ()),
      power_reply = (\<lambda>b. HttpOk ())\<rparr>"

text \<open>The same backend with one endpoint answering 500.\<close>

definition internal_error :: "'a response" where
  "internal_error = HttpError ''Internal Server Error'' None"

definition backend_no_info :: "string \<Rightarrow> backend" where
  "backend_no_info a = (backend_up a)\<lparr>info_reply := internal_error\<rparr>"

definition backend_no_disconnect :: "string \<Rightarrow> backend" where
  "backend_no_disconnect a = (backend_up a)\<lparr>disconnect_reply := internal_error\<rparr>"

text \<open>
  A backend that accepts the disconnect and then fails the status query, and one that
  accepts the disconnect and reports that no panel is connected.
\<close>

definition backend_no_status :: "string \<Rightarrow> backend" where
  "backend_no_status a = (backend_up a)\<lparr>status_reply := internal_error\<rparr>"

definition backend_released :: "string \<Rightarrow> backend" where
  "backend_released a =
     (backend_up a)\<lparr>status_reply := HttpOk \<lparr>connected = False, device_address = None\<rparr>\<rparr>"

definition panel_address :: string where
  "panel_address = ''AA:BB:CC''"

definition sample_text :: text_request where
  "sample_text =
     \<lparr>text_body = ''Hello!'', color = Some ''FF00FF'', font = Some ''CUSONG'',
      animation = Some 0, speed = Some 80, rainbow_mode = Some 0, char_height = Some 16\<rparr>"

definition frame_disconnected :: websocket_message where
  "frame_disconnected = \<lparr>mtype = ''status'', mconnected = False, mdevice_address = None\<rparr>"

definition frame_connected :: websocket_message where
  "frame_connected =
     \<lparr>mtype = ''status'', mconnected = True, mdevice_address = Some panel_address\<rparr>"

text \<open>The store after a successful \<^verbatim>\<open>connect\<close> to the panel.\<close>

definition ctx_connected_state :: ctx_state where
  "ctx_connected_state = after (ctx_connect (backend_up panel_address) panel_address ctx_init)"

definition app_connected_state :: app_state where
  "app_connected_state = after (handleConnect (backend_up panel_address) panel_address app_init)"

text \<open>\<^verbatim>\<open>Number\<close> never matters where the grid is empty or nothing is sent.\<close>

definition Number_NaN :: "string \<Rightarrow> int option" where
  "Number_NaN s = None"


text \<open>The two handlers that return without a notification when nothing is connected.\<close>

fun returns_silently :: "command \<Rightarrow> bool" where
  "returns_silently (SetBrightness v) = True"
| "returns_silently (SetOrientation v) = True"
| "returns_silently c = False"

text \<open>A store in which a scan is in flight, and one that holds the result of a scan.\<close>

definition ctx_scanning_state :: ctx_state where
  "ctx_scanning_state = after (scanDevices_begin ctx_init)"

definition ctx_scanned_state :: ctx_state where
  "ctx_scanned_state = after (scanDevices (backend_up panel_address) ctx_init)"

definition scan_error :: error where
  "scan_error = Error ''Scan failed: Internal Server Error''"

text \<open>A backend on which the power command is refused by the remote side.\<close>

definition backend_no_power :: "string \<Rightarrow> backend" where
  "backend_no_power a =
     (backend_up a)\<lparr>power_reply := (\<lambda>b. HttpError ''Bad Request'' (Some ''Not connected''))\<rparr>"

section \<open>Push channel: predicates and traces\<close>

text \<open>Every socket and every timer of the instance was created for the observer \<open>cb\<close>.\<close>

definition observers_are :: "callback \<Rightarrow> world \<Rightarrow> bool" where
  "observers_are cb w =
     (list_all (\<lambda>s. ws_observer s = cb) (sockets w) \<and>
      list_all (\<lambda>t. reopen_with t = cb) (timers w))"

text \<open>Nothing is left that the browser could deliver: every socket is closed, no timer is pending.\<close>

definition quiescent :: "world \<Rightarrow> bool" where
  "quiescent w =
     (list_all (\<lambda>s. readyState s = CLOSED) (sockets w) \<and>
      list_all (\<lambda>t. tstatus t \<noteq> Pending) (timers w))"

text \<open>The only timer that may be pending is the one \<^verbatim>\<open>wsReconnectTimer\<close> holds.\<close>

definition tracked_timer_only :: "world \<Rightarrow> bool" where
  "tracked_timer_only w =
     list_all (\<lambda>j. tstatus (timers w ! j) = Pending \<longrightarrow> wsReconnectTimer w = Some (Suc j))
       [0..<length (timers w)]"

fun is_connect_call :: "event \<Rightarrow> bool" where
  "is_connect_call (Call_connectWebSocket cb) = True"
| "is_connect_call e = False"

definition panel_observer :: callback where
  "panel_observer = 1"

definition fresh_api :: world where
  "fresh_api = new_LEDPanelAPI default_baseUrl"

definition panel_socket :: "ready_state \<Rightarrow> websocket" where
  "panel_socket r =
     \<lparr>ws_url = ''ws://127.0.0.1:8000/ws'', readyState = r, ws_observer = panel_observer\<rparr>"

definition reopen_timer :: "nat \<Rightarrow> timer_status \<Rightarrow> timer" where
  "reopen_timer d s = \<lparr>due = d, reopen_with = panel_observer, tstatus = s\<rparr>"

text \<open>
  The channel fails to connect, the reopen fires after three seconds, the second socket
  opens.
\<close>

definition reconnect_trace :: "event list" where
  "reconnect_trace =
     [Call_connectWebSocket panel_observer, Socket_closes 0, Time_passes 3000, Timer_fires 1,
      Socket_opens 1]"

text \<open>
  The observer is registered twice before the first socket has opened, which creates a
  second socket; the second socket opens; the first one closes without a teardown, which
  schedules a reopen.
\<close>

definition two_channel_trace :: "event list" where
  "two_channel_trace =
     [Call_connectWebSocket panel_observer, Call_connectWebSocket panel_observer,
      Socket_opens 1, Socket_closes 0]"

text \<open>One channel, open.\<close>

definition open_channel_trace :: "event list" where
  "open_channel_trace = [Call_connectWebSocket panel_observer, Socket_opens 0]"

text \<open>One channel that opened and then closed without a teardown.\<close>

definition closed_channel_trace :: "event list" where
  "closed_channel_trace =
     [Call_connectWebSocket panel_observer, Socket_opens 0, Socket_closes 0]"

text \<open>
  What the browser does after \<^verbatim>\<open>close()\<close> was called on socket \<open>i\<close>: it delivers the
  socket's close event, three seconds pass, and the timer \<open>t\<close> fires.
\<close>

definition close_event_then_timer :: "nat \<Rightarrow> nat \<Rightarrow> event list" where
  "close_event_then_timer i t = [Socket_closes i, Time_passes 3000, Timer_fires t]"

section \<open>Number formatting is injective\<close>

lemma digit_inj: "a < 10 \<Longrightarrow> b < 10 \<Longrightarrow> digit a = digit b \<Longrightarrow> a = b"
  by (simp add: digit_def char_of_eq_iff take_bit_eq_mod)

lemma digit_not_comma: "d < 10 \<Longrightarrow> digit d \<noteq> CHR '',''"
  by (simp add: digit_def char_of_eq_iff take_bit_eq_mod flip: of_char_eq_iff)

lemma show_nat_nonempty: "show_nat n \<noteq> []" "[] \<noteq> show_nat n"
  by (subst show_nat.simps, simp)+

lemma show_nat_digits: "c \<in> set (show_nat n) \<Longrightarrow> \<exists>d<10. c = digit d"
proof (induction n rule: show_nat.induct)
  case (1 n)
  show ?case
  proof (cases "n < 10")
    case True
    with "1.prems" show ?thesis by (subst (asm) show_nat.simps) auto
  next
    case False
    with "1.prems" have "c \<in> set (show_nat (n div 10)) \<or> c = digit (n mod 10)"
      by (subst (asm) show_nat.simps) auto
    then show ?thesis
    proof
      assume "c \<in> set (show_nat (n div 10))"
      with "1.IH" False show ?thesis by simp
    next
      assume "c = digit (n mod 10)"
      moreover have "n mod 10 < 10" by simp
      ultimately show ?thesis by blast
    qed
  qed
qed

lemma digit_not_minus: "d < 10 \<Longrightarrow> digit d \<noteq> CHR ''-''"
  by (simp add: digit_def char_of_eq_iff take_bit_eq_mod flip: of_char_eq_iff)

lemma show_nat_inj: "show_nat n = show_nat m \<Longrightarrow> n = m"
proof (induction n arbitrary: m rule: show_nat.induct)
  case (1 n)
  show ?case
  proof (cases "n < 10")
    case n: True
    show ?thesis
    proof (cases "m < 10")
      case True
      with n "1.prems" show ?thesis
        by (simp add: show_nat.simps [of n] show_nat.simps [of m] digit_inj)
    next
      case False
      with n "1.prems" show ?thesis
        by (simp add: show_nat.simps [of n] show_nat.simps [of m] show_nat_nonempty)
    qed
  next
    case n: False
    show ?thesis
    proof (cases "m < 10")
      case True
      with n "1.prems" show ?thesis
        by (simp add: show_nat.simps [of n] show_nat.simps [of m] show_nat_nonempty)
    next
      case False
      with n "1.prems" have a: "show_nat (n div 10) = show_nat (m div 10)"
        and b: "digit (n mod 10) = digit (m mod 10)"
        by (simp_all add: show_nat.simps [of n] show_nat.simps [of m])
      from "1.IH" [OF n a] have "n div 10 = m div 10" .
      moreover from b have "n mod 10 = m mod 10" by (intro digit_inj) simp_all
      ultimately show ?thesis by (metis div_mult_mod_eq)
    qed
  qed
qed

lemma show_nat_hd_not_minus: "show_nat n \<noteq> CHR ''-'' # s"
proof
  assume "show_nat n = CHR ''-'' # s"
  then have "CHR ''-'' \<in> set (show_nat n)" by simp
  then obtain d where "d < 10" "CHR ''-'' = digit d" using show_nat_digits by blast
  then show False using digit_not_minus by metis
qed

lemma show_int_inj: "show_int a = show_int b \<Longrightarrow> a = b"
  by (auto simp: show_int_def show_nat_hd_not_minus show_nat_hd_not_minus [symmetric]
      split: if_splits dest!: show_nat_inj)

lemma show_nat_no_comma: "CHR '','' \<notin> set (show_nat n)"
proof
  assume "CHR '','' \<in> set (show_nat n)"
  then obtain d where "d < 10" "CHR '','' = digit d" using show_nat_digits by blast
  then show False using digit_not_comma by metis
qed

lemma show_int_no_comma: "CHR '','' \<notin> set (show_int a)"
  by (simp add: show_int_def show_nat_no_comma)

lemma split_at_comma:
  "CHR '','' \<notin> set a \<Longrightarrow> CHR '','' \<notin> set a' \<Longrightarrow>
   a @ CHR '','' # b = a' @ CHR '','' # b' \<Longrightarrow> a = a' \<and> b = b'"
proof (induction a arbitrary: a')
  case Nil
  then show ?case by (cases a') auto
next
  case (Cons c a)
  then show ?case by (cases a') auto
qed

lemma pixel_key_inj: "pixel_key x y = pixel_key x' y' \<longleftrightarrow> x = x' \<and> y = y'"
  using split_at_comma [OF show_int_no_comma show_int_no_comma, of x "show_int y" x' "show_int y'"]
  by (auto simp: pixel_key_def dest: show_int_inj)

lemma map_of_handlePixelClick:
  "map_of (handlePixelClick c x y g) =
     (if map_of g (pixel_key x y) = Some c then (map_of g)(pixel_key x y := None)
      else (map_of g)(pixel_key x y \<mapsto> c))"
  by (simp add: handlePixelClick_def Let_def update_conv' delete_conv')


section \<open>A click toggles one cell\<close>

text \<open>
  C10. For every grid \<open>g\<close>, coordinate \<open>(x, y)\<close> and selected colour \<open>c\<close>, one
  \<^verbatim>\<open>handlePixelClick(x, y)\<close> yields the grid that equals \<open>g\<close> except at the key
  \<^verbatim>\<open>"x,y"\<close>: the key is removed if \<open>g\<close> maps it to \<open>c\<close> and mapped to \<open>c\<close>
  otherwise. No other coordinate has that key, so exactly one cell is toggled; and two
  clicks on a cell whose colour differs from \<open>c\<close> leave the cell unset, not restored.
\<close>

theorem handlePixelClick_toggles_one_cell:
  "map_of (handlePixelClick c x y g) =
     (map_of g)(pixel_key x y := (if map_of g (pixel_key x y) = Some c then None else Some c))
   \<and> (\<forall>x' y'. pixel_key x' y' = pixel_key x y \<longrightarrow> x' = x \<and> y' = y)
   \<and> (\<forall>d. map_of g (pixel_key x y) = Some d \<and> d \<noteq> c \<longrightarrow>
          map_of (handlePixelClick c x y (handlePixelClick c x y g)) (pixel_key x y) = None)"
proof (intro conjI allI impI)
  show "map_of (handlePixelClick c x y g) =
     (map_of g)(pixel_key x y := (if map_of g (pixel_key x y) = Some c then None else Some c))"
    by (simp add: map_of_handlePixelClick)
next
  fix x' y' assume "pixel_key x' y' = pixel_key x y"
  then show "x' = x" and "y' = y" by (simp_all add: pixel_key_inj)
next
  fix d assume d: "map_of g (pixel_key x y) = Some d \<and> d \<noteq> c"
  then have first: "map_of (handlePixelClick c x y g) (pixel_key x y) = Some c"
    by (simp add: map_of_handlePixelClick)
  show "map_of (handlePixelClick c x y (handlePixelClick c x y g)) (pixel_key x y) = None"
    by (simp add: map_of_handlePixelClick [of c x y "handlePixelClick c x y g"] first)
qed

theorem handlePixelClick_toggles_one_cell_witness:
  "map_of [(''1,2'', ''#00FF00''), (''0,0'', ''#0000FF'')] (pixel_key 1 2) = Some ''#00FF00''
   \<and> ''#00FF00'' \<noteq> ''#FF00FF''
   \<and> map_of (handlePixelClick ''#FF00FF'' 1 2 [(''1,2'', ''#00FF00''), (''0,0'', ''#0000FF'')])
        (pixel_key 1 2) = Some ''#FF00FF''
   \<and> map_of (handlePixelClick ''#FF00FF'' 1 2 [(''1,2'', ''#00FF00''), (''0,0'', ''#0000FF'')])
        (pixel_key 0 0) = Some ''#0000FF''
   \<and> map_of (handlePixelClick ''#FF00FF'' 1 2
        (handlePixelClick ''#FF00FF'' 1 2 [(''1,2'', ''#00FF00''), (''0,0'', ''#0000FF'')]))
        (pixel_key 1 2) = None"
proof -
  have k: "pixel_key 1 2 = ''1,2''" "pixel_key 0 0 = ''0,0''"
    by code_simp+
  have h: "map_of [(''1,2'', ''#00FF00''), (''0,0'', ''#0000FF'')] (pixel_key 1 2) = Some ''#00FF00''
           \<and> ''#00FF00'' \<noteq> ''#FF00FF''"
    by (simp add: k)
  from handlePixelClick_toggles_one_cell
         [of "''#FF00FF''" 1 2 "[(''1,2'', ''#00FF00''), (''0,0'', ''#0000FF'')]"] h
  show ?thesis by (simp add: k)
qed


section \<open>Handlers: shared facts\<close>

lemmas api_defs = api_scanDevices_def api_connect_def api_disconnect_def api_getStatus_def
  api_sendText_def api_sendImage_def api_setMode_def api_setBrightness_def api_setOrientation_def
  api_getDeviceInfo_def api_sendPixels_def api_setClockMode_def api_setPower_def

lemmas handler_defs = handleSendText_def handleImageUpload_def handleSendPixels_def
  handleSetClockMode_def handleSetBrightness_def handleSetOrientation_def handleTogglePower_def

lemmas ctx_method_defs = ctx_sendText_def ctx_sendImage_def ctx_setMode_def
  ctx_setBrightness_def ctx_setOrientation_def ctx_setPower_def

lemmas card_defs = EditorCard_handleSendText_def EditorCard_handleImageUpload_def
  ModesCard_handleModeChange_def SettingsCard_handleBrightnessChange_def
  SettingsCard_handleOrientationChange_def SettingsCard_handlePowerToggle_def

lemmas throw_defs = throw_statusText_def throw_detail_def throw_fixed_def

lemma effect_sel [simp]:
  "after (returned st qs ts) = st" "sent (returned st qs ts) = qs"
  "shown (returned st qs ts) = ts" "thrown (returned st qs ts) = None"
  "after (threw st qs e) = st" "sent (threw st qs e) = qs"
  "shown (threw st qs e) = []" "thrown (threw st qs e) = Some e"
  by (simp_all add: returned_def threw_def)

lemma forward_after [simp]: "after (forward call st) = st"
  by (simp add: forward_def split: prod.splits sum.splits)

lemma forward_sent [simp]: "sent (forward call st) = [fst call]"
  by (simp add: forward_def split: prod.splits sum.splits)

lemma forward_thrown [simp]:
  "thrown (forward call st) = (case snd call of Inl e \<Rightarrow> Some e | Inr u \<Rightarrow> None)"
  by (simp add: forward_def split: prod.splits sum.splits)

lemma submit_keeps_session:
  "app_status (after (submit Number be cmd st)) = app_status st"
  "app_deviceInfo (after (submit Number be cmd st)) = app_deviceInfo st"
  by (cases cmd; simp add: handler_defs api_defs Let_def split: sum.splits option.splits)+

lemma ctx_methods_keep_store:
  "after (ctx_sendText be req ctx) = ctx" "after (ctx_sendImage be f ctx) = ctx"
  "after (ctx_setMode be m ctx) = ctx" "after (ctx_setBrightness be b ctx) = ctx"
  "after (ctx_setOrientation be v ctx) = ctx" "after (ctx_setPower be on ctx) = ctx"
  by (simp_all add: ctx_method_defs)

lemma cards_keep_store:
  "fst (after (EditorCard_handleSendText be (ctx, ec))) = ctx"
  "fst (after (EditorCard_handleImageUpload be fl (ctx, ec))) = ctx"
  "after (ModesCard_handleModeChange be m ctx) = ctx"
  "fst (after (SettingsCard_handleBrightnessChange be v (ctx, sc))) = ctx"
  "fst (after (SettingsCard_handleOrientationChange be v (ctx, sc))) = ctx"
  "fst (after (SettingsCard_handlePowerToggle be (ctx, sc))) = ctx"
  by (simp_all add: card_defs ctx_method_defs Let_def split: option.splits)

lemma submit_disconnected:
  assumes "\<not> connected (app_status st)"
  shows "sent (submit Number be cmd st) = []"
    and "thrown (submit Number be cmd st) = None"
    and "shown (submit Number be cmd st) =
          (if returns_silently cmd then [] else [toast_error ''Connect to device first''])"
  using assms by (cases cmd; simp add: handler_defs Let_def)+

lemma cards_disconnected:
  assumes "\<not> connected (ctx_status ctx)"
  shows "sent (EditorCard_handleSendText be (ctx, ec)) = []"
    "sent (EditorCard_handleImageUpload be fl (ctx, ec)) = []"
    "sent (ModesCard_handleModeChange be m ctx) = []"
    "sent (SettingsCard_handleBrightnessChange be v (ctx, sc)) = []"
    "sent (SettingsCard_handleOrientationChange be v (ctx, sc)) = []"
    "sent (SettingsCard_handlePowerToggle be (ctx, sc)) = []"
  using assms by (simp_all add: card_defs Let_def)

lemma ctx_methods_always_send:
  "sent (ctx_sendText be req ctx) = [POST_panel_text req]"
  "sent (ctx_sendImage be f ctx) = [POST_panel_image f]"
  "sent (ctx_setMode be m ctx) = [POST_panel_mode m]"
  "sent (ctx_setBrightness be b ctx) = [POST_panel_brightness b]"
  "sent (ctx_setOrientation be v ctx) = [POST_panel_orientation v]"
  "sent (ctx_setPower be on ctx) = [POST_panel_power on]"
  by (simp_all add: ctx_method_defs api_defs)

lemma connected_forwards:
  assumes "connected (app_status st)"
  shows "sent (handleSetBrightness be v st) = [POST_panel_brightness v]"
    "sent (handleSetOrientation be v st) = [POST_panel_orientation v]"
    "sent (handleSendText be st) =
       [POST_panel_text \<lparr>text_body = app_text st, color = Some (app_textColor st),
          font = Some (app_font st), animation = Some (app_animation st),
          speed = Some (app_speed st), rainbow_mode = Some (app_rainbowMode st),
          char_height = app_charHeight st\<rparr>]"
  using assms by (simp_all add: handler_defs api_defs Let_def split: sum.splits)

lemma pixels_validated:
  assumes "connected (app_status st)"
  shows "app_pixelGrid st = [] \<Longrightarrow> sent (handleSendPixels Number be st) = []"
    "app_pixelGrid st = [] \<Longrightarrow> shown (handleSendPixels Number be st) = [toast_error ''No pixels to send'']"
    "app_pixelGrid st \<noteq> [] \<Longrightarrow> take 1 (sent (handleSendPixels Number be st)) = [POST_panel_mode diy]"
  using assms by (simp_all add: handler_defs api_defs Let_def split: sum.splits)

lemma app_connected_state_eq:
  "app_connected_state =
     app_init\<lparr>app_status := \<lparr>connected = True, device_address = Some panel_address\<rparr>,
              app_deviceInfo := Some sample_info\<rparr>"
  by (simp add: app_connected_state_def handleConnect_def api_defs throw_defs backend_up_def Let_def)

lemma ctx_connected_state_eq:
  "ctx_connected_state =
     ctx_init\<lparr>ctx_deviceInfo := Some sample_info, ctx_connected := True,
              ctx_deviceAddress := Some panel_address\<rparr>"
  by (simp add: ctx_connected_state_def ctx_connect_def api_defs throw_defs backend_up_def)


section \<open>Commands while nothing is connected\<close>

text \<open>
  C1, as the code has it. Every command handler of the application (text, image, pixel
  batch, clock mode, brightness, orientation, power) that is invoked while
  \<^verbatim>\<open>status.connected\<close> is false sends no request, and so does every card handler.
  Text, image, pixels, mode and power show the notification
  \<^verbatim>\<open>Connect to device first\<close>; brightness and orientation return without one. The
  guard is the handlers': the context's methods \<^verbatim>\<open>sendText\<close>, \<^verbatim>\<open>sendImage\<close>,
  \<^verbatim>\<open>setMode\<close>, \<^verbatim>\<open>setBrightness\<close>, \<^verbatim>\<open>setOrientation\<close> and \<^verbatim>\<open>setPower\<close> issue
  their request whatever the store says.
\<close>

theorem disconnected_handlers_send_nothing:
  assumes "\<not> connected (app_status st)" and "\<not> connected (ctx_status ctx)"
  shows "sent (submit Number be cmd st) = []
   \<and> thrown (submit Number be cmd st) = None
   \<and> shown (submit Number be cmd st) =
        (if returns_silently cmd then [] else [toast_error ''Connect to device first''])
   \<and> sent (EditorCard_handleSendText be (ctx, ec)) = []
   \<and> sent (EditorCard_handleImageUpload be fl (ctx, ec)) = []
   \<and> sent (ModesCard_handleModeChange be m ctx) = []
   \<and> sent (SettingsCard_handleBrightnessChange be v (ctx, sc)) = []
   \<and> sent (SettingsCard_handleOrientationChange be v (ctx, sc)) = []
   \<and> sent (SettingsCard_handlePowerToggle be (ctx, sc)) = []
   \<and> sent (ctx_sendText be req ctx) = [POST_panel_text req]
   \<and> sent (ctx_sendImage be f ctx) = [POST_panel_image f]
   \<and> sent (ctx_setMode be m ctx) = [POST_panel_mode m]
   \<and> sent (ctx_setBrightness be v ctx) = [POST_panel_brightness v]
   \<and> sent (ctx_setOrientation be v ctx) = [POST_panel_orientation v]
   \<and> sent (ctx_setPower be on ctx) = [POST_panel_power on]"
proof -
  note app = submit_disconnected [OF assms(1), of Number be cmd]
  note cards = cards_disconnected [OF assms(2)]
  note ctx = ctx_methods_always_send
  show ?thesis
    by (intro conjI) (rule app cards ctx)+
qed

theorem disconnected_handlers_send_nothing_witness:
  "\<not> connected (app_status app_init) \<and> \<not> connected (ctx_status ctx_init)
   \<and> sent (submit Number_NaN (backend_up panel_address) SetPower app_init) = []
   \<and> shown (submit Number_NaN (backend_up panel_address) SetPower app_init)
        = [toast_error ''Connect to device first'']
   \<and> shown (submit Number_NaN (backend_up panel_address) (SetBrightness 50) app_init) = []
   \<and> sent (ctx_setPower (backend_up panel_address) True ctx_init) = [POST_panel_power True]"
proof -
  have h: "\<not> connected (app_status app_init)" "\<not> connected (ctx_status ctx_init)"
    by (simp_all add: app_init_def ctx_init_def)
  from disconnected_handlers_send_nothing
      [where Number = Number_NaN and be = "backend_up panel_address" and cmd = SetPower
         and on = True, OF h]
    disconnected_handlers_send_nothing
      [where Number = Number_NaN and be = "backend_up panel_address" and cmd = "SetBrightness 50",
       OF h]
    h
  show ?thesis by simp
qed

text \<open>
  C1 as stated fails: with nothing connected, the context's \<^verbatim>\<open>sendText\<close> sends
  its request and returns normally, and the brightness handler reports no failure.
\<close>

theorem context_sendText_is_not_gated:
  "\<not> ctx_connected ctx_init \<and> \<not> connected (ctx_status ctx_init)
   \<and> sent (ctx_sendText (backend_up panel_address) sample_text ctx_init)
        = [POST_panel_text sample_text]
   \<and> thrown (ctx_sendText (backend_up panel_address) sample_text ctx_init) = None
   \<and> \<not> connected (app_status app_init)
   \<and> shown (handleSetBrightness (backend_up panel_address) 50 app_init) = []
   \<and> thrown (handleSetBrightness (backend_up panel_address) 50 app_init) = None"
  by (simp add: ctx_init_def app_init_def ctx_sendText_def api_sendText_def throw_detail_def
      backend_up_def handleSetBrightness_def)

section \<open>Local validation\<close>

text \<open>
  C5, as the code has it. Of the command-specific constraints only the non-empty pixel
  list is checked locally: with an empty grid \<^verbatim>\<open>handleSendPixels\<close> shows
  \<^verbatim>\<open>No pixels to send\<close> and sends nothing, and with a non-empty grid its first request
  switches the panel to DIY mode. While connected, brightness, orientation and text are
  forwarded as they are given, whatever their value.
\<close>

theorem only_the_empty_grid_is_rejected_locally:
  assumes "connected (app_status st)"
  shows "sent (handleSetBrightness be v st) = [POST_panel_brightness v]
   \<and> sent (handleSetOrientation be v st) = [POST_panel_orientation v]
   \<and> sent (handleSendText be st) =
       [POST_panel_text \<lparr>text_body = app_text st, color = Some (app_textColor st),
          font = Some (app_font st), animation = Some (app_animation st),
          speed = Some (app_speed st), rainbow_mode = Some (app_rainbowMode st),
          char_height = app_charHeight st\<rparr>]
   \<and> (app_pixelGrid st = [] \<longrightarrow>
         sent (handleSendPixels Number be st) = [] \<and>
         shown (handleSendPixels Number be st) = [toast_error ''No pixels to send''])
   \<and> (app_pixelGrid st \<noteq> [] \<longrightarrow>
         take 1 (sent (handleSendPixels Number be st)) = [POST_panel_mode diy])"
proof -
  note fw = connected_forwards [OF assms, of be]
  note px = pixels_validated [OF assms, of Number be]
  show ?thesis
    by (intro conjI impI) (rule fw px, (assumption)?)+
qed

theorem only_the_empty_grid_is_rejected_locally_witness:
  "connected (app_status app_connected_state)
   \<and> app_pixelGrid app_connected_state = []
   \<and> sent (handleSetBrightness (backend_up panel_address) 100 app_connected_state)
        = [POST_panel_brightness 100]
   \<and> sent (handleSetOrientation (backend_up panel_address) 7 app_connected_state)
        = [POST_panel_orientation 7]
   \<and> sent (handleSendPixels Number_NaN (backend_up panel_address) app_connected_state) = []
   \<and> shown (handleSendPixels Number_NaN (backend_up panel_address) app_connected_state)
        = [toast_error ''No pixels to send'']"
proof -
  have h: "connected (app_status app_connected_state)"
    and g: "app_pixelGrid app_connected_state = []"
    by (simp_all add: app_connected_state_eq app_init_def)
  from only_the_empty_grid_is_rejected_locally
      [where be = "backend_up panel_address" and v = 100 and Number = Number_NaN, OF h]
    only_the_empty_grid_is_rejected_locally
      [where be = "backend_up panel_address" and v = 7 and Number = Number_NaN, OF h]
    h g
  show ?thesis by simp
qed

text \<open>
  C5 as stated fails: brightness -1 and 101 are forwarded to the backend, with no
  notification and no exception.
\<close>

theorem brightness_out_of_range_is_forwarded:
  "connected (app_status app_connected_state)
   \<and> sent (handleSetBrightness (backend_up panel_address) (- 1) app_connected_state)
        = [POST_panel_brightness (- 1)]
   \<and> sent (handleSetBrightness (backend_up panel_address) 101 app_connected_state)
        = [POST_panel_brightness 101]
   \<and> shown (handleSetBrightness (backend_up panel_address) 101 app_connected_state) = []
   \<and> thrown (handleSetBrightness (backend_up panel_address) 101 app_connected_state) = None"
  by (simp add: app_connected_state_eq app_init_def handleSetBrightness_def
      api_setBrightness_def throw_detail_def backend_up_def)

section \<open>Session store invariant\<close>

text \<open>
  \<^verbatim>\<open>connect\<close> and \<^verbatim>\<open>disconnect\<close> keep address and flag together.
\<close>

lemma ctx_connect_keeps_invariant:
  "address_iff_connected st \<Longrightarrow> address_iff_connected (after (ctx_connect be a st))"
  by (simp add: ctx_connect_def address_iff_connected_def api_defs split: sum.splits)

lemma ctx_disconnect_keeps_invariant:
  "address_iff_connected st \<Longrightarrow> address_iff_connected (after (ctx_disconnect be st))"
  by (simp add: ctx_disconnect_def address_iff_connected_def api_defs split: sum.splits)

lemma ctx_init_invariant: "address_iff_connected ctx_init"
  by (simp add: address_iff_connected_def ctx_init_def)

text \<open>
  C2 fails on the push channel's observer. After a successful connect to
  \<^verbatim>\<open>AA:BB:CC\<close>, the frame \<^verbatim>\<open>{type: "status", connected: false}\<close> sets the flag
  to false and leaves the address in place: the observer only ever writes an address
  that the frame carries, and never clears it.
\<close>

theorem stale_address_after_disconnected_frame:
  "address_iff_connected (run_store [Connect_call (backend_up panel_address) panel_address] ctx_init)
   \<and> ctx_connected
        (run_store [Connect_call (backend_up panel_address) panel_address,
                    Status_frame frame_disconnected] ctx_init) = False
   \<and> ctx_deviceAddress
        (run_store [Connect_call (backend_up panel_address) panel_address,
                    Status_frame frame_disconnected] ctx_init) = Some panel_address
   \<and> \<not> address_iff_connected
        (run_store [Connect_call (backend_up panel_address) panel_address,
                    Status_frame frame_disconnected] ctx_init)"
proof -
  have one: "run_store [Connect_call (backend_up panel_address) panel_address] ctx_init
               = ctx_connected_state"
    by (simp add: run_store_def ctx_connected_state_def)
  have two: "run_store [Connect_call (backend_up panel_address) panel_address,
                        Status_frame frame_disconnected] ctx_init
               = onStatusFrame frame_disconnected ctx_connected_state"
    by (simp add: run_store_def ctx_connected_state_def)
  show ?thesis
    unfolding one two
    by (simp add: ctx_connected_state_eq onStatusFrame_def frame_disconnected_def truthy_str_def
        address_iff_connected_def Let_def)
qed

section \<open>Connect and the capability fetch\<close>

text \<open>The context's \<^verbatim>\<open>connect\<close> changes the store only when both calls succeed.\<close>

lemma ctx_connect_all_or_nothing:
  "thrown (ctx_connect be a st) \<noteq> None \<Longrightarrow> after (ctx_connect be a st) = st"
  by (simp add: ctx_connect_def api_defs split: sum.splits)

text \<open>
  C3 fails in \<^verbatim>\<open>handleConnect\<close>. With a backend that accepts the connect, reports
  the session as connected and fails the capability fetch, the application is left
  connected with no capabilities and shows \<^verbatim>\<open>Connection failed\<close>; the context's
  \<^verbatim>\<open>connect\<close> leaves its store untouched on the same backend.
\<close>

theorem handleConnect_half_connected:
  "connect_reply (backend_no_info panel_address) panel_address = HttpOk ()
   \<and> info_reply (backend_no_info panel_address) = internal_error
   \<and> app_status (after (handleConnect (backend_no_info panel_address) panel_address app_init))
        = \<lparr>connected = True, device_address = Some panel_address\<rparr>
   \<and> app_deviceInfo (after (handleConnect (backend_no_info panel_address) panel_address app_init))
        = None
   \<and> shown (handleConnect (backend_no_info panel_address) panel_address app_init)
        = [toast_error ''Connection failed'']
   \<and> after (ctx_connect (backend_no_info panel_address) panel_address ctx_init) = ctx_init"
  by (simp add: handleConnect_def ctx_connect_def api_defs throw_defs backend_no_info_def
      backend_up_def internal_error_def app_init_def Let_def)

section \<open>Disconnect\<close>

text \<open>
  C4, as the code has it. The context's \<^verbatim>\<open>disconnect\<close>: when the remote disconnect
  succeeds it sets the flag to false and clears address and capabilities; when the
  remote disconnect fails the store is left as it was and the error is rethrown. The
  application's \<^verbatim>\<open>handleDisconnect\<close>: when the remote disconnect fails it sends
  nothing more, leaves its state as it was and shows \<^verbatim>\<open>Disconnect failed\<close>; when the
  remote disconnect succeeds it asks the backend for the status. If that query
  succeeds, the status becomes what the backend reports (disconnected exactly when the
  backend says so), the capabilities are cleared and \<^verbatim>\<open>Disconnected\<close> is shown; if the
  query fails, the state is left as it was and \<^verbatim>\<open>Disconnect failed\<close> is shown.
\<close>

theorem disconnect_clears_only_on_remote_success:
  "(disconnect_reply be = HttpOk () \<longrightarrow>
      after (ctx_disconnect be st) =
        st\<lparr>ctx_connected := False, ctx_deviceAddress := None, ctx_deviceInfo := None\<rparr>
      \<and> thrown (ctx_disconnect be st) = None
      \<and> sent (handleDisconnect be ast) = [POST_devices_disconnect, GET_devices_status]
      \<and> (\<forall>newStatus. status_reply be = HttpOk newStatus \<longrightarrow>
            after (handleDisconnect be ast) =
              ast\<lparr>app_status := newStatus, app_deviceInfo := None\<rparr>
            \<and> shown (handleDisconnect be ast) = [toast_success ''Disconnected''])
      \<and> ((\<forall>newStatus. status_reply be \<noteq> HttpOk newStatus) \<longrightarrow>
            after (handleDisconnect be ast) = ast
            \<and> shown (handleDisconnect be ast) = [toast_error ''Disconnect failed'']))
   \<and> (disconnect_reply be \<noteq> HttpOk () \<longrightarrow>
        after (ctx_disconnect be st) = st \<and> thrown (ctx_disconnect be st) \<noteq> None
        \<and> sent (handleDisconnect be ast) = [POST_devices_disconnect]
        \<and> after (handleDisconnect be ast) = ast
        \<and> shown (handleDisconnect be ast) = [toast_error ''Disconnect failed''])"
proof (intro conjI impI allI)
  assume ok: "disconnect_reply be = HttpOk ()"
  then have d: "api_disconnect be = (POST_devices_disconnect, Inr ())"
    by (simp add: api_disconnect_def throw_statusText_def)
  show "after (ctx_disconnect be st) =
        st\<lparr>ctx_connected := False, ctx_deviceAddress := None, ctx_deviceInfo := None\<rparr>"
    and "thrown (ctx_disconnect be st) = None"
    by (simp_all add: ctx_disconnect_def d)
  show "sent (handleDisconnect be ast) = [POST_devices_disconnect, GET_devices_status]"
    by (simp add: handleDisconnect_def d api_getStatus_def split: sum.splits)
  {
    fix newStatus assume "status_reply be = HttpOk newStatus"
    then have q: "api_getStatus be = (GET_devices_status, Inr newStatus)"
      by (simp add: api_getStatus_def throw_statusText_def)
    show "after (handleDisconnect be ast) =
            ast\<lparr>app_status := newStatus, app_deviceInfo := None\<rparr>"
      and "shown (handleDisconnect be ast) = [toast_success ''Disconnected'']"
      by (simp_all add: handleDisconnect_def d q)
  }
  {
    assume "\<forall>newStatus. status_reply be \<noteq> HttpOk newStatus"
    then obtain e where q: "api_getStatus be = (GET_devices_status, Inl e)"
      by (cases "status_reply be") (simp_all add: api_getStatus_def throw_statusText_def)
    show "after (handleDisconnect be ast) = ast"
      and "shown (handleDisconnect be ast) = [toast_error ''Disconnect failed'']"
      by (simp_all add: handleDisconnect_def d q)
  }
next
  assume bad: "disconnect_reply be \<noteq> HttpOk ()"
  then obtain e where e: "api_disconnect be = (POST_devices_disconnect, Inl e)"
    by (cases "disconnect_reply be") (simp_all add: api_disconnect_def throw_statusText_def)
  then show "after (ctx_disconnect be st) = st" "thrown (ctx_disconnect be st) \<noteq> None"
    "sent (handleDisconnect be ast) = [POST_devices_disconnect]"
    "after (handleDisconnect be ast) = ast"
    "shown (handleDisconnect be ast) = [toast_error ''Disconnect failed'']"
    by (simp_all add: ctx_disconnect_def handleDisconnect_def)
qed

theorem disconnect_clears_only_on_remote_success_witness:
  "disconnect_reply (backend_released panel_address) = HttpOk ()
   \<and> status_reply (backend_released panel_address)
        = HttpOk \<lparr>connected = False, device_address = None\<rparr>
   \<and> disconnect_reply (backend_no_status panel_address) = HttpOk ()
   \<and> status_reply (backend_no_status panel_address) = internal_error
   \<and> disconnect_reply (backend_no_disconnect panel_address) \<noteq> HttpOk ()
   \<and> after (ctx_disconnect (backend_released panel_address) ctx_connected_state) = ctx_init
   \<and> after (handleDisconnect (backend_released panel_address) app_connected_state) = app_init
   \<and> shown (handleDisconnect (backend_released panel_address) app_connected_state)
        = [toast_success ''Disconnected'']
   \<and> after (handleDisconnect (backend_no_status panel_address) app_connected_state)
        = app_connected_state
   \<and> shown (handleDisconnect (backend_no_status panel_address) app_connected_state)
        = [toast_error ''Disconnect failed'']
   \<and> after (ctx_disconnect (backend_no_disconnect panel_address) ctx_connected_state)
        = ctx_connected_state
   \<and> after (handleDisconnect (backend_no_disconnect panel_address) app_connected_state)
        = app_connected_state
   \<and> shown (handleDisconnect (backend_no_disconnect panel_address) app_connected_state)
        = [toast_error ''Disconnect failed'']"
proof -
  have released: "disconnect_reply (backend_released panel_address) = HttpOk ()"
    "status_reply (backend_released panel_address)
       = HttpOk \<lparr>connected = False, device_address = None\<rparr>"
    by (simp_all add: backend_released_def backend_up_def)
  have no_status: "disconnect_reply (backend_no_status panel_address) = HttpOk ()"
    "status_reply (backend_no_status panel_address) = internal_error"
    "\<forall>newStatus. status_reply (backend_no_status panel_address) \<noteq> HttpOk newStatus"
    by (simp_all add: backend_no_status_def backend_up_def internal_error_def)
  have no_disconnect: "disconnect_reply (backend_no_disconnect panel_address) \<noteq> HttpOk ()"
    by (simp add: backend_up_def backend_no_disconnect_def internal_error_def)
  from disconnect_clears_only_on_remote_success
      [where be = "backend_released panel_address" and st = ctx_connected_state
         and ast = app_connected_state]
    disconnect_clears_only_on_remote_success
      [where be = "backend_no_status panel_address" and ast = app_connected_state]
    disconnect_clears_only_on_remote_success
      [where be = "backend_no_disconnect panel_address" and st = ctx_connected_state
         and ast = app_connected_state]
    released no_status no_disconnect
  show ?thesis
    by (simp add: ctx_connected_state_eq app_connected_state_eq ctx_init_def app_init_def)
qed

text \<open>
  C4 as stated fails, in both paths. After a remote disconnect that fails, the store is
  still connected, with its address and capabilities, and so is the application. After
  a remote disconnect that succeeds, the application is still connected when the status
  query fails (capabilities kept, \<^verbatim>\<open>Disconnect failed\<close> shown) and when the backend
  still reports a session (\<^verbatim>\<open>Disconnected\<close> shown).
\<close>

theorem failed_disconnect_stays_connected:
  "ctx_connected ctx_connected_state
   \<and> disconnect_reply (backend_no_disconnect panel_address) = internal_error
   \<and> ctx_connected (after (ctx_disconnect (backend_no_disconnect panel_address) ctx_connected_state))
   \<and> ctx_deviceAddress (after (ctx_disconnect (backend_no_disconnect panel_address) ctx_connected_state))
        = Some panel_address
   \<and> ctx_deviceInfo (after (ctx_disconnect (backend_no_disconnect panel_address) ctx_connected_state))
        = Some sample_info
   \<and> connected (app_status (after (handleDisconnect (backend_no_disconnect panel_address) app_connected_state)))
   \<and> disconnect_reply (backend_no_status panel_address) = HttpOk ()
   \<and> connected (app_status (after (handleDisconnect (backend_no_status panel_address) app_connected_state)))
   \<and> app_deviceInfo (after (handleDisconnect (backend_no_status panel_address) app_connected_state))
        = Some sample_info
   \<and> shown (handleDisconnect (backend_no_status panel_address) app_connected_state)
        = [toast_error ''Disconnect failed'']
   \<and> disconnect_reply (backend_up panel_address) = HttpOk ()
   \<and> connected (app_status (after (handleDisconnect (backend_up panel_address) app_connected_state)))
   \<and> shown (handleDisconnect (backend_up panel_address) app_connected_state)
        = [toast_success ''Disconnected'']"
  by (simp add: ctx_connected_state_eq app_connected_state_eq ctx_disconnect_def
      handleDisconnect_def api_disconnect_def api_getStatus_def throw_statusText_def
      backend_no_disconnect_def backend_no_status_def backend_up_def internal_error_def)

section \<open>Scanning\<close>

text \<open>
  C6, as the code has it. Starting a scan sets the scanning flag and sends the scan
  request, whatever the flag was: the function has no guard of its own (the Scan button
  is disabled while the flag is set). When the scan settles the flag is reset, on
  success and on failure; on success the device list is replaced by the result; on
  failure the list is left as it was.
\<close>

theorem scan_is_unguarded_and_failure_keeps_the_list:
  "sent (scanDevices_begin st) = [GET_devices_scan]
   \<and> thrown (scanDevices_begin st) = None
   \<and> ctx_scanning (after (scanDevices_begin st))
   \<and> after (scanDevices_settle (Inr ds) st) = st\<lparr>ctx_devices := ds, ctx_scanning := False\<rparr>
   \<and> after (scanDevices_settle (Inl e) st) = st\<lparr>ctx_scanning := False\<rparr>
   \<and> thrown (scanDevices_settle (Inl e) st) = Some e
   \<and> sent (handleScan_begin ast) = [GET_devices_scan]
   \<and> shown (handleScan_begin ast) = []
   \<and> app_scanning (after (handleScan_begin ast))
   \<and> after (handleScan_settle (Inr ds) ast) = ast\<lparr>app_devices := ds, app_scanning := False\<rparr>
   \<and> after (handleScan_settle (Inl e) ast) = ast\<lparr>app_scanning := False\<rparr>
   \<and> shown (handleScan_settle (Inl e) ast) = [toast_error ''Scan failed'']"
  by (simp add: scanDevices_begin_def scanDevices_settle_def handleScan_begin_def
      handleScan_settle_def)

theorem scan_is_unguarded_and_failure_keeps_the_list_witness:
  "ctx_scanning ctx_scanning_state
   \<and> sent (scanDevices_begin ctx_scanning_state) = [GET_devices_scan]
   \<and> ctx_devices (after (scanDevices_settle (Inr []) ctx_scanned_state)) = []
   \<and> \<not> ctx_scanning (after (scanDevices_settle (Inl scan_error) ctx_scanning_state))"
  using scan_is_unguarded_and_failure_keeps_the_list [where st = ctx_init]
    scan_is_unguarded_and_failure_keeps_the_list [where st = ctx_scanning_state and e = scan_error]
    scan_is_unguarded_and_failure_keeps_the_list [where st = ctx_scanned_state and ds = "[]"]
  by (simp add: ctx_scanning_state_def)

text \<open>
  C6 as stated fails: a scan started while one is in flight sends a second request and
  does not fail, and a scan that fails keeps the devices of the earlier scan.
\<close>

theorem second_scan_starts_while_scanning:
  "ctx_scanning ctx_scanning_state
   \<and> sent (scanDevices_begin ctx_scanning_state) = [GET_devices_scan]
   \<and> thrown (scanDevices_begin ctx_scanning_state) = None
   \<and> ctx_devices ctx_scanned_state = [\<lparr>name = ''Panel-1'', address = panel_address, rssi = Some (- 60)\<rparr>]
   \<and> ctx_devices (after (scanDevices_settle (Inl scan_error) ctx_scanned_state))
        = [\<lparr>name = ''Panel-1'', address = panel_address, rssi = Some (- 60)\<rparr>]"
  by (simp add: ctx_scanning_state_def ctx_scanned_state_def scanDevices_def scanDevices_begin_def
      scanDevices_settle_def api_scanDevices_def throw_statusText_def backend_up_def Let_def)

section \<open>Commands never touch the session\<close>

text \<open>
  C8. For every command submission, failing or not, the session fields are the same
  before and after: the application's handlers leave \<^verbatim>\<open>status\<close> (connected flag and
  device address) and \<^verbatim>\<open>deviceInfo\<close> alone, the context's panel methods return the
  store they were given, and the card handlers change only their own component state.
\<close>

theorem command_paths_keep_session:
  "app_status (after (submit Number be cmd st)) = app_status st
   \<and> app_deviceInfo (after (submit Number be cmd st)) = app_deviceInfo st
   \<and> after (ctx_sendText be req ctx) = ctx
   \<and> after (ctx_sendImage be f ctx) = ctx
   \<and> after (ctx_setMode be m ctx) = ctx
   \<and> after (ctx_setBrightness be v ctx) = ctx
   \<and> after (ctx_setOrientation be v ctx) = ctx
   \<and> after (ctx_setPower be on ctx) = ctx
   \<and> fst (after (EditorCard_handleSendText be (ctx, ec))) = ctx
   \<and> fst (after (EditorCard_handleImageUpload be fl (ctx, ec))) = ctx
   \<and> after (ModesCard_handleModeChange be m ctx) = ctx
   \<and> fst (after (SettingsCard_handleBrightnessChange be v (ctx, sc))) = ctx
   \<and> fst (after (SettingsCard_handleOrientationChange be v (ctx, sc))) = ctx
   \<and> fst (after (SettingsCard_handlePowerToggle be (ctx, sc))) = ctx"
proof -
  note app = submit_keeps_session [of Number be cmd st]
  note ctx = ctx_methods_keep_store
  note cards = cards_keep_store
  show ?thesis
    by (intro conjI) (rule app ctx cards)+
qed

theorem command_paths_keep_session_witness:
  "thrown (ctx_setPower (backend_no_power panel_address) True ctx_connected_state)
        = Some (Error ''Not connected'')
   \<and> after (ctx_setPower (backend_no_power panel_address) True ctx_connected_state)
        = ctx_connected_state
   \<and> shown (submit Number_NaN (backend_up panel_address) SendPixels app_connected_state)
        = [toast_error ''No pixels to send'']
   \<and> app_status (after (submit Number_NaN (backend_up panel_address) SendPixels app_connected_state))
        = \<lparr>connected = True, device_address = Some panel_address\<rparr>
   \<and> app_deviceInfo (after (submit Number_NaN (backend_up panel_address) SendPixels app_connected_state))
        = Some sample_info"
  using command_paths_keep_session
      [where Number = Number_NaN and be = "backend_up panel_address" and cmd = SendPixels
         and st = app_connected_state]
    command_paths_keep_session
      [where be = "backend_no_power panel_address" and ctx = ctx_connected_state and on = True]
  by (simp add: app_connected_state_eq app_init_def handleSendPixels_def ctx_setPower_def
      api_setPower_def throw_detail_def truthy_str_def backend_no_power_def backend_up_def)


section \<open>Push channel: registered observers\<close>

lemma connectWebSocket_appends:
  "statusCallbacks (connectWebSocket cb w) = statusCallbacks w @ [cb]"
  by (simp add: connectWebSocket_def Let_def)

lemma sockets_update_observers:
  "list_all (\<lambda>s. ws_observer s = cb) xs \<Longrightarrow>
   list_all (\<lambda>s. ws_observer s = cb) (xs[i := (xs ! i)\<lparr>readyState := r\<rparr>])"
  by (cases "i < length xs") (auto simp: list_all_length nth_list_update)

lemma timers_update_observers:
  "list_all (\<lambda>t. reopen_with t = cb) xs \<Longrightarrow>
   list_all (\<lambda>t. reopen_with t = cb) (xs[i := (xs ! i)\<lparr>tstatus := r\<rparr>])"
  by (cases "i < length xs") (auto simp: list_all_length nth_list_update)

lemma connectWebSocket_observers:
  "observers_are cb w \<Longrightarrow> observers_are cb (connectWebSocket cb w)"
  by (simp add: connectWebSocket_def observers_are_def Let_def)

lemma clearTimeout_observers:
  "observers_are cb w \<Longrightarrow> observers_are cb (clearTimeout t w)"
  by (simp add: clearTimeout_def observers_are_def timers_update_observers)

lemma clearTimeout_callbacks [simp]: "statusCallbacks (clearTimeout t w) = statusCallbacks w"
  by (simp add: clearTimeout_def)

lemma set_readyState_observers:
  "observers_are cb w \<Longrightarrow> observers_are cb (set_readyState i r w)"
  by (simp add: set_readyState_def observers_are_def sockets_update_observers)

lemma ws_onopen_observers: "observers_are cb w \<Longrightarrow> observers_are cb (ws_onopen w)"
  using clearTimeout_observers [of cb w]
  by (auto simp: ws_onopen_def observers_are_def split: option.splits)

lemma ws_onclose_observers: "observers_are cb w \<Longrightarrow> observers_are cb (ws_onclose cb w)"
  by (simp add: ws_onclose_def setTimeout_def observers_are_def)

lemma ws_onmessage_observers: "observers_are cb w \<Longrightarrow> observers_are cb (ws_onmessage d w)"
  by (simp add: ws_onmessage_def observers_are_def split: option.splits)

lemma step_observers:
  assumes "observers_are cb w" and "registers_only cb e"
  shows "observers_are cb (step w e)"
proof (cases e)
  case (Call_connectWebSocket c)
  with assms show ?thesis by (simp add: connectWebSocket_observers)
next
  case (Socket_opens i)
  with assms show ?thesis
    by (simp add: ws_onopen_observers set_readyState_observers)
next
  case (Socket_closes i)
  show ?thesis
  proof (cases "socket_in i {CONNECTING, OPEN, CLOSING} w")
    case True
    then have i: "i < length (sockets w)" by (simp add: socket_in_def)
    with assms(1) have "ws_observer (sockets w ! i) = cb"
      by (simp add: observers_are_def list_all_length)
    with assms(1) i True Socket_closes show ?thesis
      by (simp add: ws_onclose_observers set_readyState_observers)
  next
    case False
    with assms Socket_closes show ?thesis by simp
  qed
next
  case (Socket_message i d)
  with assms show ?thesis by (simp add: ws_onmessage_observers)
next
  case (Timer_fires t)
  show ?thesis
  proof (cases "timer_due t w")
    case True
    then have t: "t - 1 < length (timers w)"
      by (auto simp: timer_due_def timer_pending_def)
    with assms(1) have cb: "reopen_with (timers w ! (t - 1)) = cb"
      by (simp add: observers_are_def list_all_length)
    have "observers_are cb (w\<lparr>timers := (timers w)[t - 1 := (timers w ! (t - 1))\<lparr>tstatus := Fired\<rparr>]\<rparr>)"
      using assms(1) by (simp add: observers_are_def timers_update_observers)
    with True Timer_fires cb show ?thesis by (simp add: connectWebSocket_observers)
  next
    case False
    with assms Timer_fires show ?thesis by simp
  qed
next
  case (Time_passes d)
  with assms show ?thesis by (simp add: observers_are_def)
qed (use assms in simp_all)

lemma step_callbacks:
  assumes "observers_are cb w" and "registers_only cb e"
  shows "statusCallbacks (step w e) =
           statusCallbacks w @ (if enters_connect w e then [cb] else [])"
proof (cases e)
  case (Socket_opens i)
  then show ?thesis
    by (simp add: ws_onopen_def set_readyState_def split: option.splits)
next
  case (Socket_closes i)
  then show ?thesis by (simp add: ws_onclose_def setTimeout_def set_readyState_def)
next
  case (Socket_message i d)
  then show ?thesis by (simp add: ws_onmessage_def split: option.splits)
next
  case (Timer_fires t)
  show ?thesis
  proof (cases "timer_due t w")
    case True
    then have "t - 1 < length (timers w)"
      by (auto simp: timer_due_def timer_pending_def)
    with assms(1) have "reopen_with (timers w ! (t - 1)) = cb"
      by (simp add: observers_are_def list_all_length)
    with True Timer_fires show ?thesis by (simp add: connectWebSocket_appends)
  next
    case False
    with Timer_fires show ?thesis by simp
  qed
qed (use assms in \<open>simp_all add: connectWebSocket_appends\<close>)

lemma run_Cons: "run (e # es) w = run es (step w e)"
  by (simp add: run_def)

lemma run_callbacks:
  "observers_are cb w \<Longrightarrow> list_all (registers_only cb) evs \<Longrightarrow>
   statusCallbacks (run evs w) = statusCallbacks w @ replicate (connect_calls evs w) cb"
proof (induction evs arbitrary: w)
  case Nil
  then show ?case by (simp add: run_def)
next
  case (Cons e es)
  from Cons.prems have e: "registers_only cb e" and es: "list_all (registers_only cb) es"
    by simp_all
  have "statusCallbacks (run es (step w e)) =
          statusCallbacks (step w e) @ replicate (connect_calls es (step w e)) cb"
    by (rule Cons.IH [OF step_observers [OF Cons.prems(1) e] es])
  then show ?case
    by (simp add: run_Cons step_callbacks [OF Cons.prems(1) e])
qed

lemma invocations_per_frame_replicate:
  "statusCallbacks w = replicate n cb \<Longrightarrow> invocations_per_frame cb m w = n"
  by (simp add: invocations_per_frame_def ws_onmessage_def filter_map comp_def)


text \<open>
  C9. \<^verbatim>\<open>connectWebSocket(cb)\<close> appends \<open>cb\<close> to the callback list before it looks at
  the channel. Hence, on an instance whose callback list is empty and whose sockets and
  timers (if any) were made for \<open>cb\<close>, after any trace without teardown or removal in
  which \<open>cb\<close> is the only observer registered, the list holds \<open>cb\<close> once for every
  entry into \<^verbatim>\<open>connectWebSocket\<close>, the calls of the application and those of the
  reconnect timers alike, and a frame received then invokes \<open>cb\<close> that many times.
\<close>

theorem every_connect_call_adds_one_invocation:
  assumes "statusCallbacks w = []" and "observers_are cb w"
    and "list_all (registers_only cb) evs"
  shows "statusCallbacks (connectWebSocket cb w) = statusCallbacks w @ [cb]
   \<and> statusCallbacks (run evs w) = replicate (connect_calls evs w) cb
   \<and> invocations_per_frame cb m (run evs w) = connect_calls evs w"
proof -
  have cbs: "statusCallbacks (run evs w) = replicate (connect_calls evs w) cb"
    using run_callbacks [OF assms(2,3)] assms(1) by simp
  show ?thesis
    by (simp add: connectWebSocket_appends cbs invocations_per_frame_replicate [OF cbs])
qed


lemmas ws_defs = connectWebSocket_def disconnectWebSocket_def ws_onopen_def ws_onclose_def
  ws_onmessage_def ws_close_def clearTimeout_def setTimeout_def timer_pending_def timer_due_def
  socket_in_def set_readyState_def ws_is_open_def valid_ws_url_def

lemma wsUrl_default: "replace_first ''http'' ''ws'' default_baseUrl @ ''/ws'' = ''ws://127.0.0.1:8000/ws''"
  by (simp add: default_baseUrl_def)

lemma run_append: "run (xs @ ys) w = run ys (run xs w)"
  by (simp add: run_def)

lemma run_Nil: "run [] w = w"
  by (simp add: run_def)


theorem every_connect_call_adds_one_invocation_witness:
  "statusCallbacks fresh_api = [] \<and> observers_are panel_observer fresh_api
   \<and> list_all (registers_only panel_observer) reconnect_trace
   \<and> connect_calls reconnect_trace fresh_api = 2
   \<and> statusCallbacks (run reconnect_trace fresh_api) = [panel_observer, panel_observer]
   \<and> invocations_per_frame panel_observer frame_connected (run reconnect_trace fresh_api) = 2"
proof -
  have h: "statusCallbacks fresh_api = []" "observers_are panel_observer fresh_api"
    "list_all (registers_only panel_observer) reconnect_trace"
    by (simp_all add: fresh_api_def new_LEDPanelAPI_def observers_are_def reconnect_trace_def)
  have n: "connect_calls reconnect_trace fresh_api = 2"
    by (simp add: reconnect_trace_def fresh_api_def new_LEDPanelAPI_def ws_defs wsUrl_default
        Let_def)
  from every_connect_call_adds_one_invocation [OF h, of frame_connected] h n
  show ?thesis by (simp add: numeral_2_eq_2)
qed

section \<open>Push channel: teardown\<close>

text \<open>
  A close event schedules one reopen, three seconds ahead, for the observer the socket
  was created with.
\<close>

lemma close_schedules_one_reopen:
  assumes "socket_in i {CONNECTING, OPEN, CLOSING} w"
  shows "timers (step w (Socket_closes i)) =
           timers w @ [\<lparr>due = now w + 3000, reopen_with = ws_observer (sockets w ! i),
                        tstatus = Pending\<rparr>]"
    and "wsReconnectTimer (step w (Socket_closes i)) = Some (length (timers w) + 1)"
  using assms by (simp_all add: ws_onclose_def setTimeout_def set_readyState_def)

text \<open>
  Where every socket is closed when \<^verbatim>\<open>disconnectWebSocket\<close> is called and the only
  pending timer is the one it knows, nothing is reopened afterwards.
\<close>

lemma quiescent_no_socket_event:
  "quiescent w \<Longrightarrow> CLOSED \<notin> rs \<Longrightarrow> \<not> socket_in i rs w"
  by (auto simp: quiescent_def socket_in_def list_all_length)

lemma quiescent_no_timer: "quiescent w \<Longrightarrow> \<not> timer_pending t w"
  by (auto simp: quiescent_def timer_pending_def list_all_length)

lemma quiescent_disconnect:
  assumes "quiescent w"
  shows "quiescent (disconnectWebSocket w)" "sockets (disconnectWebSocket w) = sockets w"
  using assms quiescent_no_timer [OF assms] quiescent_no_socket_event [OF assms, of "{CONNECTING, OPEN}"]
  by (auto simp: disconnectWebSocket_def clearTimeout_def ws_close_def socket_in_def
      quiescent_def Let_def split: option.splits)

lemma quiescent_step:
  assumes "quiescent w" and "\<not> is_connect_call e"
  shows "quiescent (step w e) \<and> sockets (step w e) = sockets w"
proof (cases e)
  case Call_disconnectWebSocket
  with quiescent_disconnect [OF assms(1)] show ?thesis by simp
next
  case (Call_removeStatusCallback c)
  with assms show ?thesis by (simp add: removeStatusCallback_def quiescent_def)
next
  case (Socket_opens i)
  with assms quiescent_no_socket_event [OF assms(1), of "{CONNECTING}" i] show ?thesis by simp
next
  case (Socket_closes i)
  with assms quiescent_no_socket_event [OF assms(1), of "{CONNECTING, OPEN, CLOSING}" i]
  show ?thesis by simp
next
  case (Socket_message i d)
  with assms show ?thesis by (simp add: ws_onmessage_def quiescent_def split: option.splits)
next
  case (Timer_fires t)
  with assms quiescent_no_timer [OF assms(1), of t] show ?thesis by (simp add: timer_due_def)
next
  case (Time_passes d)
  with assms show ?thesis by (simp add: quiescent_def)
qed (use assms in simp)

lemma quiescent_run:
  "quiescent w \<Longrightarrow> list_all (\<lambda>e. \<not> is_connect_call e) evs \<Longrightarrow>
   quiescent (run evs w) \<and> sockets (run evs w) = sockets w"
proof (induction evs arbitrary: w)
  case Nil
  then show ?case by (simp add: run_def)
next
  case (Cons e es)
  from Cons.prems have e: "\<not> is_connect_call e" and es: "list_all (\<lambda>e. \<not> is_connect_call e) es"
    by simp_all
  from quiescent_step [OF Cons.prems(1) e] Cons.IH [OF _ es, of "step w e"]
  show ?case by (simp add: run_Cons)
qed

lemma teardown_quiescent:
  assumes closed: "list_all (\<lambda>s. readyState s = CLOSED) (sockets w)"
    and tracked: "tracked_timer_only w"
  shows "quiescent (disconnectWebSocket w)"
proof -
  have s: "sockets (disconnectWebSocket w) = sockets w"
    using closed
    by (auto simp: disconnectWebSocket_def clearTimeout_def ws_close_def Let_def list_all_length
        split: option.splits)
  have t: "tstatus (timers (disconnectWebSocket w) ! j) \<noteq> Pending"
    if j: "j < length (timers (disconnectWebSocket w))" for j
  proof -
    have len: "length (timers (disconnectWebSocket w)) = length (timers w)"
      by (auto simp: disconnectWebSocket_def clearTimeout_def ws_close_def Let_def
          split: option.splits)
    with j have j': "j < length (timers w)" by simp
    show ?thesis
    proof (cases "tstatus (timers w ! j) = Pending")
      case True
      with tracked j' have tr: "wsReconnectTimer w = Some (Suc j)"
        by (simp add: tracked_timer_only_def list_all_iff)
      with True j' show ?thesis
        by (auto simp: disconnectWebSocket_def clearTimeout_def ws_close_def timer_pending_def
            Let_def split: option.splits)
    next
      case False
      with j' show ?thesis
        by (auto simp: disconnectWebSocket_def clearTimeout_def ws_close_def timer_pending_def
            Let_def nth_list_update split: option.splits if_splits)
    qed
  qed
  show ?thesis
    using closed t by (simp add: quiescent_def s list_all_length)
qed

lemma no_reopen_after_teardown_of_a_closed_channel:
  assumes "list_all (\<lambda>s. readyState s = CLOSED) (sockets w)" and "tracked_timer_only w"
    and "list_all (\<lambda>e. \<not> is_connect_call e) evs"
  shows "sockets (run evs (disconnectWebSocket w)) = sockets w"
    and "list_all (\<lambda>t. tstatus t \<noteq> Pending) (timers (run evs (disconnectWebSocket w)))"
proof -
  have q: "quiescent (disconnectWebSocket w)"
    by (rule teardown_quiescent [OF assms(1,2)])
  have s: "sockets (disconnectWebSocket w) = sockets w"
    using assms(1)
    by (auto simp: disconnectWebSocket_def clearTimeout_def ws_close_def Let_def list_all_length
        split: option.splits)
  from quiescent_run [OF q assms(3)] s
  show "sockets (run evs (disconnectWebSocket w)) = sockets w"
    and "list_all (\<lambda>t. tstatus t \<noteq> Pending) (timers (run evs (disconnectWebSocket w)))"
    by (simp_all add: quiescent_def)
qed


lemma closed_channel_world:
  "run closed_channel_trace fresh_api =
     \<lparr>baseUrl = default_baseUrl, ws = Some 0, wsReconnectTimer = Some 1,
      statusCallbacks = [panel_observer], sockets = [panel_socket CLOSED],
      timers = [reopen_timer 3000 Pending], now = 0, invoked = []\<rparr>"
  by (simp add: closed_channel_trace_def fresh_api_def new_LEDPanelAPI_def run_Cons run_Nil
      ws_defs wsUrl_default panel_socket_def reopen_timer_def Let_def)

lemma teardown_before_the_delay_prevents_the_reopen:
  assumes "list_all (\<lambda>e. \<not> is_connect_call e) evs"
  shows "sockets (run evs (disconnectWebSocket (run closed_channel_trace fresh_api)))
           = [panel_socket CLOSED]"
    and "list_all (\<lambda>t. tstatus t \<noteq> Pending)
           (timers (run evs (disconnectWebSocket (run closed_channel_trace fresh_api))))"
  using no_reopen_after_teardown_of_a_closed_channel
          [where w = "run closed_channel_trace fresh_api", OF _ _ assms]
  by (simp_all add: closed_channel_world tracked_timer_only_def panel_socket_def
      reopen_timer_def)

text \<open>The worlds of the two traces in which a channel is live at teardown.\<close>

lemma two_channel_world:
  "run two_channel_trace fresh_api =
     \<lparr>baseUrl = default_baseUrl, ws = Some 1, wsReconnectTimer = Some 1,
      statusCallbacks = [panel_observer, panel_observer],
      sockets = [panel_socket CLOSED, panel_socket OPEN],
      timers = [reopen_timer 3000 Pending], now = 0, invoked = []\<rparr>"
  by (simp add: two_channel_trace_def fresh_api_def new_LEDPanelAPI_def run_Cons run_Nil ws_defs
      wsUrl_default panel_socket_def reopen_timer_def Let_def)

lemma torn_down_world:
  "run (two_channel_trace @ [Call_disconnectWebSocket]) fresh_api =
     \<lparr>baseUrl = default_baseUrl, ws = None, wsReconnectTimer = None,
      statusCallbacks = [],
      sockets = [panel_socket CLOSED, panel_socket CLOSING],
      timers = [reopen_timer 3000 Cleared], now = 0, invoked = []\<rparr>"
  by (simp add: run_append two_channel_world run_Cons run_Nil ws_defs
      panel_socket_def reopen_timer_def Let_def)

lemma closed_after_teardown_world:
  "run (two_channel_trace @ [Call_disconnectWebSocket, Socket_closes 1]) fresh_api =
     \<lparr>baseUrl = default_baseUrl, ws = None, wsReconnectTimer = Some 2,
      statusCallbacks = [],
      sockets = [panel_socket CLOSED, panel_socket CLOSED],
      timers = [reopen_timer 3000 Cleared, reopen_timer 3000 Pending], now = 0, invoked = []\<rparr>"
  using torn_down_world
  by (simp add: run_append run_Cons run_Nil ws_defs panel_socket_def reopen_timer_def Let_def)

lemma reopened_world:
  "run (two_channel_trace @ Call_disconnectWebSocket # close_event_then_timer 1 2) fresh_api =
     \<lparr>baseUrl = default_baseUrl, ws = Some 2, wsReconnectTimer = Some 2,
      statusCallbacks = [panel_observer],
      sockets = [panel_socket CLOSED, panel_socket CLOSED, panel_socket CONNECTING],
      timers = [reopen_timer 3000 Cleared, reopen_timer 3000 Fired], now = 3000, invoked = []\<rparr>"
  using closed_after_teardown_world
  by (simp add: close_event_then_timer_def run_append run_Cons run_Nil ws_defs wsUrl_default
      panel_socket_def reopen_timer_def Let_def)


lemma open_channel_world:
  "run open_channel_trace fresh_api =
     \<lparr>baseUrl = default_baseUrl, ws = Some 0, wsReconnectTimer = None,
      statusCallbacks = [panel_observer], sockets = [panel_socket OPEN],
      timers = [], now = 0, invoked = []\<rparr>"
  by (simp add: open_channel_trace_def fresh_api_def new_LEDPanelAPI_def run_Cons run_Nil
      ws_defs wsUrl_default panel_socket_def Let_def)

lemma open_channel_reopened_world:
  "run (open_channel_trace @ Call_disconnectWebSocket # close_event_then_timer 0 1) fresh_api =
     \<lparr>baseUrl = default_baseUrl, ws = Some 1, wsReconnectTimer = Some 1,
      statusCallbacks = [panel_observer],
      sockets = [panel_socket CLOSED, panel_socket CONNECTING],
      timers = [reopen_timer 3000 Fired], now = 3000, invoked = []\<rparr>"
  by (simp add: run_append open_channel_world close_event_then_timer_def run_Cons run_Nil
      ws_defs wsUrl_default panel_socket_def reopen_timer_def Let_def)

text \<open>
  C7 fails where a channel is live at teardown. In the first trace a reopen is pending
  (the first socket closed on its own) and the second socket is open; teardown, called
  before the three seconds have passed, clears the timer and calls \<^verbatim>\<open>close()\<close> on the
  open socket. The close event of that socket then runs \<^verbatim>\<open>onclose\<close>, which is still
  attached: a timer is pending after teardown, and when it fires a third socket is
  opened. The second trace is the plain case, one open channel and no timer: teardown,
  the close event, three seconds, and the channel is reopened.
\<close>

theorem reopen_after_teardown:
  "timer_pending 1 (run two_channel_trace fresh_api)
   \<and> now (run two_channel_trace fresh_api) < due (timers (run two_channel_trace fresh_api) ! 0)
   \<and> socket_in 1 {OPEN} (run two_channel_trace fresh_api)
   \<and> wsReconnectTimer (run (two_channel_trace @ [Call_disconnectWebSocket]) fresh_api) = None
   \<and> ws (run (two_channel_trace @ [Call_disconnectWebSocket]) fresh_api) = None
   \<and> socket_in 1 {CLOSING} (run (two_channel_trace @ [Call_disconnectWebSocket]) fresh_api)
   \<and> length (sockets (run (two_channel_trace @ [Call_disconnectWebSocket]) fresh_api)) = 2
   \<and> timer_pending 2
        (run (two_channel_trace @ [Call_disconnectWebSocket, Socket_closes 1]) fresh_api)
   \<and> length (sockets
        (run (two_channel_trace @ Call_disconnectWebSocket # close_event_then_timer 1 2) fresh_api))
        = 3
   \<and> socket_in 2 {CONNECTING}
        (run (two_channel_trace @ Call_disconnectWebSocket # close_event_then_timer 1 2) fresh_api)
   \<and> ws (run (two_channel_trace @ Call_disconnectWebSocket # close_event_then_timer 1 2) fresh_api)
        = Some 2
   \<and> socket_in 0 {OPEN} (run open_channel_trace fresh_api)
   \<and> length (sockets
        (run (open_channel_trace @ Call_disconnectWebSocket # close_event_then_timer 0 1) fresh_api))
        = 2
   \<and> socket_in 1 {CONNECTING}
        (run (open_channel_trace @ Call_disconnectWebSocket # close_event_then_timer 0 1) fresh_api)
   \<and> statusCallbacks
        (run (open_channel_trace @ Call_disconnectWebSocket # close_event_then_timer 0 1) fresh_api)
        = [panel_observer]"
  unfolding two_channel_world torn_down_world closed_after_teardown_world reopened_world
    open_channel_world open_channel_reopened_world
  by (simp add: timer_pending_def socket_in_def panel_socket_def reopen_timer_def)

end
